theory Spec2Isabelle
  imports Complex_Main "HOL-Library.Char_ord" "HOL-Library.List_Lexorder"
begin

section \<open>Text analysis of the TF-IDF vectorizer\<close>

text \<open>
  \<^verbatim>\<open>ChatbotEngine._initialize\<close> constructs
  \<^verbatim>\<open>TfidfVectorizer(max_features=1000, stop_words='english', ngram_range=(1, 2))\<close>.
  The vectorizer is library code; what follows is its documented behaviour for these
  settings and the remaining defaults (lower-casing, the token pattern
  \<^verbatim>\<open>\b\w\w+\b\<close>, smoothed IDF, L2 normalisation), which is also the algorithm of
  sections 4.1 and 4.2 of the specification.

  These definitions are the library in exact arithmetic on ASCII text. They serve below
  to evaluate the engine on a few small ASCII corpora, where the similarities (0 and 1)
  come out the same in 64-bit floating point. They differ from the library in three
  ways. Weights are real numbers, where the library
  rounds to 64-bit floating point: a similarity that is 1 here may be
  1.0000000000000002 or 0.9999999999999997 there, and equal similarities here may be
  unequal there. A word character is an ASCII letter, digit or underscore and only
  \<open>A\<close> to \<open>Z\<close> are lower-cased, where Python's \<^verbatim>\<open>\w\<close> and
  \<^verbatim>\<open>str.lower\<close> know all of Unicode. And above the vocabulary cap, ties between
  equally frequent features are broken in another order than the library's. What holds
  of \<^verbatim>\<open>get_response\<close> for every corpus and query is therefore stated over the
  library's calls as parameters (see \<open>get_response_with\<close>), not over these definitions.
\<close>

definition is_word_char :: "char \<Rightarrow> bool" where
  "is_word_char c =
     (let n = (of_char c :: nat)
      in (48 \<le> n \<and> n \<le> 57) \<or> (65 \<le> n \<and> n \<le> 90) \<or> n = 95 \<or> (97 \<le> n \<and> n \<le> 122))"

definition lower_char :: "char \<Rightarrow> char" where
  "lower_char c =
     (let n = (of_char c :: nat) in if 65 \<le> n \<and> n \<le> 90 then char_of (n + 32) else c)"

definition lower :: "string \<Rightarrow> string" where
  "lower s = map lower_char s"

text \<open>
  The maximal runs of word characters of a text, in order; \<open>cur\<close> is the run being
  read, reversed.
\<close>

fun word_runs :: "string \<Rightarrow> string \<Rightarrow> string list" where
  "word_runs cur [] = (if cur = [] then [] else [rev cur])"
| "word_runs cur (c # cs) =
     (if is_word_char c then word_runs (c # cur) cs
      else if cur = [] then word_runs [] cs
      else rev cur # word_runs [] cs)"

text \<open>The token pattern keeps the runs of two or more word characters.\<close>

definition tokenize :: "string \<Rightarrow> string list" where
  "tokenize doc = filter (\<lambda>w. 2 \<le> length w) (word_runs [] (lower doc))"

fun space_join :: "string list \<Rightarrow> string" where
  "space_join [] = []"
| "space_join [w] = w"
| "space_join (w # ws) = w @ '' '' @ space_join ws"

text \<open>
  Stop words are removed first; the n-grams are then formed over the remaining tokens:
  the unigrams when the range starts at 1, followed by the n-grams of each larger
  length up to the upper end of the range.
\<close>

definition word_ngrams :: "nat \<times> nat \<Rightarrow> string list \<Rightarrow> string list \<Rightarrow> string list" where
  "word_ngrams rng stop tokens =
     (let toks = filter (\<lambda>w. w \<notin> set stop) tokens;
          min_n = fst rng; max_n = snd rng;
          n_original = length toks
      in if max_n = 1 then toks
         else (if min_n = 1 then toks else []) @
              concat (map (\<lambda>n. map (\<lambda>i. space_join (take n (drop i toks)))
                                    [0 ..< n_original - n + 1])
                          [(if min_n = 1 then 2 else min_n) ..< min (max_n + 1) (n_original + 1)]))"

text \<open>The list behind \<^verbatim>\<open>stop_words='english'\<close>.\<close>

definition ENGLISH_STOP_WORDS :: "string list" where
  "ENGLISH_STOP_WORDS =
   [''a'', ''about'', ''above'', ''across'', ''after'', ''afterwards'', ''again'', ''against'',
    ''all'', ''almost'', ''alone'', ''along'', ''already'', ''also'', ''although'', ''always'',
    ''am'', ''among'', ''amongst'', ''amoungst'', ''amount'', ''an'', ''and'', ''another'',
    ''any'', ''anyhow'', ''anyone'', ''anything'', ''anyway'', ''anywhere'', ''are'',
    ''around'', ''as'', ''at'', ''back'', ''be'', ''became'', ''because'', ''become'',
    ''becomes'', ''becoming'', ''been'', ''before'', ''beforehand'', ''behind'', ''being'',
    ''below'', ''beside'', ''besides'', ''between'', ''beyond'', ''bill'', ''both'',
    ''bottom'', ''but'', ''by'', ''call'', ''can'', ''cannot'', ''cant'', ''co'', ''con'',
    ''could'', ''couldnt'', ''cry'', ''de'', ''describe'', ''detail'', ''do'', ''done'',
    ''down'', ''due'', ''during'', ''each'', ''eg'', ''eight'', ''either'', ''eleven'',
    ''else'', ''elsewhere'', ''empty'', ''enough'', ''etc'', ''even'', ''ever'', ''every'',
    ''everyone'', ''everything'', ''everywhere'', ''except'', ''few'', ''fifteen'', ''fifty'',
    ''fill'', ''find'', ''fire'', ''first'', ''five'', ''for'', ''former'', ''formerly'',
    ''forty'', ''found'', ''four'', ''from'', ''front'', ''full'', ''further'', ''get'',
    ''give'', ''go'', ''had'', ''has'', ''hasnt'', ''have'', ''he'', ''hence'', ''her'',
    ''here'', ''hereafter'', ''hereby'', ''herein'', ''hereupon'', ''hers'', ''herself'',
    ''him'', ''himself'', ''his'', ''how'', ''however'', ''hundred'', ''i'', ''ie'', ''if'',
    ''in'', ''inc'', ''indeed'', ''interest'', ''into'', ''is'', ''it'', ''its'', ''itself'',
    ''keep'', ''last'', ''latter'', ''latterly'', ''least'', ''less'', ''ltd'', ''made'',
    ''many'', ''may'', ''me'', ''meanwhile'', ''might'', ''mill'', ''mine'', ''more'',
    ''moreover'', ''most'', ''mostly'', ''move'', ''much'', ''must'', ''my'', ''myself'',
    ''name'', ''namely'', ''neither'', ''never'', ''nevertheless'', ''next'', ''nine'',
    ''no'', ''nobody'', ''none'', ''noone'', ''nor'', ''not'', ''nothing'', ''now'',
    ''nowhere'', ''of'', ''off'', ''often'', ''on'', ''once'', ''one'', ''only'', ''onto'',
    ''or'', ''other'', ''others'', ''otherwise'', ''our'', ''ours'', ''ourselves'', ''out'',
    ''over'', ''own'', ''part'', ''per'', ''perhaps'', ''please'', ''put'', ''rather'',
    ''re'', ''same'', ''see'', ''seem'', ''seemed'', ''seeming'', ''seems'', ''serious'',
    ''several'', ''she'', ''should'', ''show'', ''side'', ''since'', ''sincere'', ''six'',
    ''sixty'', ''so'', ''some'', ''somehow'', ''someone'', ''something'', ''sometime'',
    ''sometimes'', ''somewhere'', ''still'', ''such'', ''system'', ''take'', ''ten'',
    ''than'', ''that'', ''the'', ''their'', ''them'', ''themselves'', ''then'', ''thence'',
    ''there'', ''thereafter'', ''thereby'', ''therefore'', ''therein'', ''thereupon'',
    ''these'', ''they'', ''thick'', ''thin'', ''third'', ''this'', ''those'', ''though'',
    ''three'', ''through'', ''throughout'', ''thru'', ''thus'', ''to'', ''together'', ''too'',
    ''top'', ''toward'', ''towards'', ''twelve'', ''twenty'', ''two'', ''un'', ''under'',
    ''until'', ''up'', ''upon'', ''us'', ''very'', ''via'', ''was'', ''we'', ''well'',
    ''were'', ''what'', ''whatever'', ''when'', ''whence'', ''whenever'', ''where'',
    ''whereafter'', ''whereas'', ''whereby'', ''wherein'', ''whereupon'', ''wherever'',
    ''whether'', ''which'', ''while'', ''whither'', ''who'', ''whoever'', ''whole'', ''whom'',
    ''whose'', ''why'', ''will'', ''with'', ''within'', ''without'', ''would'', ''yet'',
    ''you'', ''your'', ''yours'', ''yourself'', ''yourselves'']"

record TfidfVectorizer =
  max_features :: nat
  stop_words :: "string list"
  ngram_range :: "nat \<times> nat"
  vocabulary :: "string list option"  \<comment> \<open>\<open>None\<close> until the vectorizer is fitted\<close>
  idf :: "real list"

definition analyze :: "TfidfVectorizer \<Rightarrow> string \<Rightarrow> string list" where
  "analyze v doc = word_ngrams (ngram_range v) (stop_words v) (tokenize doc)"


section \<open>Fitting and applying the vectorizer\<close>

datatype error =
    AttributeError    \<comment> \<open>an attribute is read before \<^verbatim>\<open>_initialize\<close> has set it\<close>
  | ValueError        \<comment> \<open>empty vocabulary; a matrix of no rows or of another width\<close>
  | NotFittedError    \<comment> \<open>\<^verbatim>\<open>transform\<close> on a vectorizer that was never fitted\<close>
  | IndexError

text \<open>
  The features found in the documents, each once, in alphabetical order (the library
  sorts its feature names).
\<close>

definition count_vocab :: "TfidfVectorizer \<Rightarrow> string list \<Rightarrow> string list" where
  "count_vocab v raw_documents = sort (remdups (concat (map (analyze v) raw_documents)))"

text \<open>
  When more than \<open>max_features\<close> features were found, the \<open>max_features\<close> most
  frequent ones over the whole corpus are kept. Among equally frequent features the
  library keeps those its sorting routine happens to put first; here the alphabetically
  earlier wins, so above the cap this vocabulary can differ from the library's. Up to
  the cap nothing is dropped and the two agree.
\<close>

definition limit_features :: "TfidfVectorizer \<Rightarrow> string list \<Rightarrow> string list \<Rightarrow> string list" where
  "limit_features v raw_documents voc =
     (if length voc \<le> max_features v then voc
      else let occ = concat (map (analyze v) raw_documents);
               top = take (max_features v) (sort_key (\<lambda>t. - int (count_list occ t)) voc)
           in filter (\<lambda>t. t \<in> set top) voc)"

text \<open>Smoothed inverse document frequency: \<open>ln ((1 + D) / (1 + df t)) + 1\<close>.\<close>

definition idf_weight :: "TfidfVectorizer \<Rightarrow> string list \<Rightarrow> string \<Rightarrow> real" where
  "idf_weight v raw_documents t =
     ln ((1 + real (length raw_documents)) /
         (1 + real (length (filter (\<lambda>d. t \<in> set (analyze v d)) raw_documents)))) + 1"

definition fit :: "TfidfVectorizer \<Rightarrow> string list \<Rightarrow> error + TfidfVectorizer" where
  "fit v raw_documents =
     (let found = count_vocab v raw_documents
      in if found = [] then Inl ValueError
         else let voc = limit_features v raw_documents found
              in Inr (v\<lparr>vocabulary := Some voc,
                         idf := map (idf_weight v raw_documents) voc\<rparr>))"

definition l2_normalize :: "real list \<Rightarrow> real list" where
  "l2_normalize x =
     (let n = sqrt (sum_list (map (\<lambda>a. a * a) x))
      in if n = 0 then x else map (\<lambda>a. a / n) x)"

text \<open>
  One row of the TF-IDF matrix: the count of each vocabulary term in the document times
  the term's IDF weight, then scaled to unit length. Terms outside the vocabulary
  contribute nothing.
\<close>

definition tfidf_row :: "string list \<Rightarrow> real list \<Rightarrow> string list \<Rightarrow> real list" where
  "tfidf_row voc ws terms =
     l2_normalize (map (\<lambda>(t, w). real (count_list terms t) * w) (zip voc ws))"

definition transform :: "TfidfVectorizer \<Rightarrow> string list \<Rightarrow> error + real list list" where
  "transform v raw_documents =
     (case vocabulary v of
        None \<Rightarrow> Inl NotFittedError
      | Some voc \<Rightarrow> Inr (map (\<lambda>d. tfidf_row voc (idf v) (analyze v d)) raw_documents))"

definition fit_transform ::
  "TfidfVectorizer \<Rightarrow> string list \<Rightarrow> error + TfidfVectorizer \<times> real list list" where
  "fit_transform v raw_documents =
     (case fit v raw_documents of
        Inl e \<Rightarrow> Inl e
      | Inr v' \<Rightarrow>
          (case transform v' raw_documents of
             Inl e \<Rightarrow> Inl e
           | Inr X \<Rightarrow> Inr (v', X)))"

definition dot :: "real list \<Rightarrow> real list \<Rightarrow> real" where
  "dot x y = sum_list (map (\<lambda>(a, b). a * b) (zip x y))"

text \<open>
  \<^verbatim>\<open>cosine_similarity(X, Y)\<close> for a one-row \<open>X\<close>: both sides are scaled to unit
  length (again) and multiplied, in exact arithmetic. The library refuses a \<open>Y\<close> of
  no rows and rows of another width than \<open>X\<close>.
\<close>

definition cosine_similarity :: "real list \<Rightarrow> real list list \<Rightarrow> error + real list" where
  "cosine_similarity x Y =
     (if Y = [] \<or> (\<exists>y \<in> set Y. length y \<noteq> length x) then Inl ValueError
      else Inr (map (\<lambda>y. dot (l2_normalize x) (l2_normalize y)) Y))"

text \<open>\<^verbatim>\<open>np.max\<close> and \<^verbatim>\<open>np.argmax\<close> (the first index of the maximum) of a non-empty row.\<close>

definition np_max :: "real list \<Rightarrow> real" where
  "np_max xs = fold max (tl xs) (hd xs)"

fun first_index :: "('a \<Rightarrow> bool) \<Rightarrow> 'a list \<Rightarrow> nat" where
  "first_index P [] = 0"
| "first_index P (x # xs) = (if P x then 0 else Suc (first_index P xs))"

definition np_argmax :: "real list \<Rightarrow> nat" where
  "np_argmax xs = first_index (\<lambda>x. x = np_max xs) xs"

section \<open>The chatbot engine\<close>

text \<open>
  Modelled from the spec: \<^verbatim>\<open>models.py\<close> is not among the sources. A
  \<^verbatim>\<open>KnowledgeBase\<close> row has the fields of the specification's KnowledgeEntry that
  the code reads and writes.
\<close>

record KnowledgeBase =
  question :: string
  answer :: string
  category :: string
  tags :: string
  is_active :: bool

record ChatbotEngine =
  vectorizer :: TfidfVectorizer
  knowledge_vectors :: "real list list option"
  questions :: "string list"
  answers :: "string list"

definition new_vectorizer :: TfidfVectorizer where
  "new_vectorizer =
     \<lparr>max_features = 1000, stop_words = ENGLISH_STOP_WORDS, ngram_range = (1, 2),
      vocabulary = None, idf = []\<rparr>"

text \<open>
  \<^verbatim>\<open>_load_knowledge_base\<close>: the active rows, or the three greetings when there is
  none; then the vectorizer is fitted. When fitting raises, the questions and answers
  are already assigned and \<open>knowledge_vectors\<close> stays \<open>None\<close>.
\<close>

definition load_knowledge_base ::
  "KnowledgeBase list \<Rightarrow> ChatbotEngine \<Rightarrow> (error + unit) \<times> ChatbotEngine" where
  "load_knowledge_base kb self =
     (let knowledge_items = filter is_active kb;
          self1 =
            (if knowledge_items = []
             then self\<lparr>questions := [''hello'', ''hi'', ''greetings''],
                       answers := [''Hello! How can I help you today?'',
                                   ''Hi there! What can I assist you with?'',
                                   ''Greetings! How may I be of service?'']\<rparr>
             else self\<lparr>questions := map question knowledge_items,
                       answers := map answer knowledge_items\<rparr>)
      in if questions self1 \<noteq> []
         then (case fit_transform (vectorizer self1) (questions self1) of
                 Inl e \<Rightarrow> (Inl e, self1)
               | Inr (v', X) \<Rightarrow>
                   (Inr (), self1\<lparr>vectorizer := v', knowledge_vectors := Some X\<rparr>))
         else (Inr (), self1))"

text \<open>\<^verbatim>\<open>_initialize\<close> assigns every attribute afresh, whatever the engine held before.\<close>

definition initialize :: "KnowledgeBase list \<Rightarrow> (error + unit) \<times> ChatbotEngine" where
  "initialize kb =
     load_knowledge_base kb
       \<lparr>vectorizer = new_vectorizer, knowledge_vectors = None, questions = [], answers = []\<rparr>"

text \<open>
  Lines 56 to 70 of \<^verbatim>\<open>get_response\<close>: the lookup in an engine whose attributes
  are set.
\<close>

definition lookup_response :: "ChatbotEngine \<Rightarrow> string \<Rightarrow> real \<Rightarrow> error + string \<times> real \<times> bool" where
  "lookup_response self user_input threshold =
     (if questions self = [] \<or> knowledge_vectors self = None
      then Inr (''I'm still learning. Please contact a human agent for assistance.'', 0, True)
      else
        (case transform (vectorizer self) [user_input] of
           Inl e \<Rightarrow> Inl e
         | Inr input_vector \<Rightarrow>
             (case cosine_similarity (hd input_vector) (the (knowledge_vectors self)) of
                Inl e \<Rightarrow> Inl e
              | Inr similarities \<Rightarrow>
                  let max_similarity = np_max similarities;
                      best_match_idx = np_argmax similarities
                  in if max_similarity \<ge> threshold
                     then (if best_match_idx < length (answers self)
                           then Inr (answers self ! best_match_idx, max_similarity, False)
                           else Inl IndexError)
                     else Inr (''I'm not sure I understand. Let me connect you with a human agent who can help.'',
                               max_similarity, True))))"

text \<open>
  The engine is a process-wide singleton whose \<^verbatim>\<open>__new__\<close> sets no attribute:
  \<open>None\<close> is the instance before the first \<^verbatim>\<open>_initialize\<close>, on which reading
  \<^verbatim>\<open>self.knowledge_vectors\<close> raises. The knowledge base \<open>kb\<close> is the table as it
  stands at the call.
\<close>

definition get_response ::
  "KnowledgeBase list \<Rightarrow> ChatbotEngine option \<Rightarrow> string \<Rightarrow> real \<Rightarrow>
     (error + string \<times> real \<times> bool) \<times> ChatbotEngine option" where
  "get_response kb self user_input threshold =
     (case self of
        None \<Rightarrow> (Inl AttributeError, None)
      | Some e \<Rightarrow>
          (case (if knowledge_vectors e = None then initialize kb else (Inr (), e)) of
             (Inl err, e') \<Rightarrow> (Inl err, Some e')
           | (Inr u, e') \<Rightarrow> (lookup_response e' user_input threshold, Some e')))"

definition retrain_model ::
  "KnowledgeBase list \<Rightarrow> ChatbotEngine option \<Rightarrow> (error + unit) \<times> ChatbotEngine option" where
  "retrain_model kb self = (case initialize kb of (r, e) \<Rightarrow> (r, Some e))"


section \<open>The engine over the library's calls\<close>

text \<open>
  The engine reaches the library through three calls:
  \<^verbatim>\<open>self.vectorizer.fit_transform(self.questions)\<close> (line 48),
  \<^verbatim>\<open>self.vectorizer.transform([user_input])\<close> (line 60) and
  \<^verbatim>\<open>cosine_similarity(input_vector, self.knowledge_vectors)\<close> (line 63). Here they
  are parameters, so that what is proved of the functions below holds for whatever the
  library computes, on any text and in floating point. A matrix is the list of its rows
  and a floating-point entry is the real number it denotes.
\<close>

record sklearn =
  fit_transform_call :: "TfidfVectorizer \<Rightarrow> string list \<Rightarrow> error + TfidfVectorizer \<times> real list list"
  transform_call :: "TfidfVectorizer \<Rightarrow> string list \<Rightarrow> error + real list list"
  cosine_similarity_call :: "real list list \<Rightarrow> real list list \<Rightarrow> error + real list list"

text \<open>
  \<^verbatim>\<open>_load_knowledge_base\<close>, \<^verbatim>\<open>_initialize\<close> and \<^verbatim>\<open>get_response\<close> once
  more, line by line as above, with the library's calls taken from \<open>lib\<close>.
  \<^verbatim>\<open>np.max\<close> and \<^verbatim>\<open>np.argmax\<close> range over all entries of the matrix the
  library returned, row after row, and \<^verbatim>\<open>np.max\<close> raises on a matrix without
  entries.
\<close>

definition load_knowledge_base_with ::
  "sklearn \<Rightarrow> KnowledgeBase list \<Rightarrow> ChatbotEngine \<Rightarrow> (error + unit) \<times> ChatbotEngine" where
  "load_knowledge_base_with lib kb self =
     (let knowledge_items = filter is_active kb;
          self1 =
            (if knowledge_items = []
             then self\<lparr>questions := [''hello'', ''hi'', ''greetings''],
                       answers := [''Hello! How can I help you today?'',
                                   ''Hi there! What can I assist you with?'',
                                   ''Greetings! How may I be of service?'']\<rparr>
             else self\<lparr>questions := map question knowledge_items,
                       answers := map answer knowledge_items\<rparr>)
      in if questions self1 \<noteq> []
         then (case fit_transform_call lib (vectorizer self1) (questions self1) of
                 Inl e \<Rightarrow> (Inl e, self1)
               | Inr (v', X) \<Rightarrow>
                   (Inr (), self1\<lparr>vectorizer := v', knowledge_vectors := Some X\<rparr>))
         else (Inr (), self1))"

definition initialize_with :: "sklearn \<Rightarrow> KnowledgeBase list \<Rightarrow> (error + unit) \<times> ChatbotEngine" where
  "initialize_with lib kb =
     load_knowledge_base_with lib kb
       \<lparr>vectorizer = new_vectorizer, knowledge_vectors = None, questions = [], answers = []\<rparr>"

definition lookup_response_with ::
  "sklearn \<Rightarrow> ChatbotEngine \<Rightarrow> string \<Rightarrow> real \<Rightarrow> error + string \<times> real \<times> bool" where
  "lookup_response_with lib self user_input threshold =
     (if questions self = [] \<or> knowledge_vectors self = None
      then Inr (''I'm still learning. Please contact a human agent for assistance.'', 0, True)
      else
        (case transform_call lib (vectorizer self) [user_input] of
           Inl e \<Rightarrow> Inl e
         | Inr input_vector \<Rightarrow>
             (case cosine_similarity_call lib input_vector (the (knowledge_vectors self)) of
                Inl e \<Rightarrow> Inl e
              | Inr similarities \<Rightarrow>
                  if concat similarities = [] then Inl ValueError
                  else
                    let max_similarity = np_max (concat similarities);
                        best_match_idx = np_argmax (concat similarities)
                    in if max_similarity \<ge> threshold
                       then (if best_match_idx < length (answers self)
                             then Inr (answers self ! best_match_idx, max_similarity, False)
                             else Inl IndexError)
                       else Inr (''I'm not sure I understand. Let me connect you with a human agent who can help.'',
                                 max_similarity, True))))"

definition get_response_with ::
  "sklearn \<Rightarrow> KnowledgeBase list \<Rightarrow> ChatbotEngine option \<Rightarrow> string \<Rightarrow> real \<Rightarrow>
     (error + string \<times> real \<times> bool) \<times> ChatbotEngine option" where
  "get_response_with lib kb self user_input threshold =
     (case self of
        None \<Rightarrow> (Inl AttributeError, None)
      | Some e \<Rightarrow>
          (case (if knowledge_vectors e = None then initialize_with lib kb else (Inr (), e)) of
             (Inl err, e') \<Rightarrow> (Inl err, Some e')
           | (Inr u, e') \<Rightarrow> (lookup_response_with lib e' user_input threshold, Some e')))"

text \<open>
  The library in exact arithmetic on ASCII text, as defined in the first two sections;
  with it the functions over the library's calls are the ones defined before
  (\<open>get_response_with_exact\<close> below).
\<close>

definition exact_sklearn :: sklearn where
  "exact_sklearn =
     \<lparr>fit_transform_call = fit_transform,
      transform_call = transform,
      cosine_similarity_call =
        (\<lambda>X Y. case cosine_similarity (hd X) Y of Inl e \<Rightarrow> Inl e | Inr row \<Rightarrow> Inr [row])\<rparr>"


section \<open>Sessions and messages\<close>

text \<open>
  Modelled from the spec: \<^verbatim>\<open>models.py\<close> is not among the sources. The rows of
  \<^verbatim>\<open>ChatSession\<close> and \<^verbatim>\<open>ChatMessage\<close> follow section 3 of the
  specification and the attributes the services read and write. \<open>ACTIVE\<close>,
  \<open>ESCALATED\<close> and \<open>CLOSED\<close> are the status strings \<^verbatim>\<open>'active'\<close>,
  \<^verbatim>\<open>'escalated'\<close> and \<^verbatim>\<open>'closed'\<close>; \<open>pk\<close> is the integer primary key
  \<^verbatim>\<open>id\<close>, \<open>session_id\<close> the opaque token. Times are clock readings.
\<close>

datatype status = ACTIVE | ESCALATED | CLOSED

record ChatSession =
  pk :: nat
  user_id :: nat
  session_id :: string
  status :: status
  created_at :: nat
  escalated_at :: "nat option"
  closed_at :: "nat option"

datatype message_type = USER | BOT | AGENT

record ChatMessage =
  msg_session :: nat  \<comment> \<open>the \<open>pk\<close> of the session the message belongs to\<close>
  message_type :: message_type
  content :: string
  is_escalation_trigger :: bool
  timestamp :: nat

text \<open>
  What the services work on: the three tables and the engine singleton. A table is the
  list of its rows in insertion order.
\<close>

record state =
  chat_sessions :: "ChatSession list"
  chat_messages :: "ChatMessage list"
  knowledge_base :: "KnowledgeBase list"
  chatbot :: "ChatbotEngine option"

text \<open>
  \<^verbatim>\<open>query.filter_by(...).first()\<close> is \<open>find\<close>; committing a change made to the
  object it returned rewrites that row, the first one that meets the filter.
\<close>

fun update_first :: "('a \<Rightarrow> bool) \<Rightarrow> ('a \<Rightarrow> 'a) \<Rightarrow> 'a list \<Rightarrow> 'a list" where
  "update_first P f [] = []"
| "update_first P f (x # xs) = (if P x then f x # xs else x # update_first P f xs)"

record response =
  user_message :: string
  bot_response :: string
  similarity :: real
  needs_escalation :: bool
  session_status :: status

text \<open>
  \<^verbatim>\<open>ChatService.send_message\<close>; \<open>now\<close> is the clock at the call. The result is
  \<open>Inr None\<close> where the source returns \<^verbatim>\<open>None\<close> (the controller answers
  404, session not found). When the engine raises, nothing was committed: the tables
  are as before and only the engine keeps what \<^verbatim>\<open>_initialize\<close> assigned.
\<close>

definition send_message ::
  "state \<Rightarrow> string \<Rightarrow> nat \<Rightarrow> string \<Rightarrow> nat \<Rightarrow> (error + response option) \<times> state" where
  "send_message st sid uid message now =
     (let owned = (\<lambda>s. session_id s = sid \<and> user_id s = uid)
      in case find owned (chat_sessions st) of
           None \<Rightarrow> (Inr None, st)
         | Some session \<Rightarrow>
             let user_msg = \<lparr>msg_session = pk session, message_type = USER, content = message,
                              is_escalation_trigger = False, timestamp = now\<rparr>
             in (case get_response (knowledge_base st) (chatbot st) message (3 / 10) of
                  (Inl e, eng) \<Rightarrow> (Inl e, st\<lparr>chatbot := eng\<rparr>)
                | (Inr (reply, sim, escalate), eng) \<Rightarrow>
                    let bot_msg = \<lparr>msg_session = pk session, message_type = BOT,
                                     content = reply, is_escalation_trigger = escalate,
                                     timestamp = now\<rparr>;
                        escalating = (escalate \<and> status session = ACTIVE);
                        session' = (if escalating
                                    then session\<lparr>status := ESCALATED, escalated_at := Some now\<rparr>
                                    else session)
                    in (Inr (Some \<lparr>user_message = message, bot_response = reply,
                                     similarity = sim, needs_escalation = escalate,
                                     session_status = status session'\<rparr>),
                        st\<lparr>chat_sessions :=
                              update_first owned (\<lambda>s. session') (chat_sessions st),
                            chat_messages := chat_messages st @ [user_msg, bot_msg],
                            chatbot := eng\<rparr>)))"

text \<open>\<^verbatim>\<open>AgentService.send_agent_message\<close>: only an escalated session takes one.\<close>

definition send_agent_message :: "state \<Rightarrow> nat \<Rightarrow> string \<Rightarrow> nat \<Rightarrow> nat \<Rightarrow> bool \<times> state" where
  "send_agent_message st key message agent_id now =
     (case find (\<lambda>s. pk s = key) (chat_sessions st) of
        None \<Rightarrow> (False, st)
      | Some session \<Rightarrow>
          if status session \<noteq> ESCALATED then (False, st)
          else (True, st\<lparr>chat_messages := chat_messages st @
                  [\<lparr>msg_session = key, message_type = AGENT, content = message,
                    is_escalation_trigger = False, timestamp = now\<rparr>]\<rparr>))"

text \<open>\<^verbatim>\<open>AgentService.close_session\<close>: any session that exists is closed at \<open>now\<close>.\<close>

definition close_session :: "state \<Rightarrow> nat \<Rightarrow> nat \<Rightarrow> bool \<times> state" where
  "close_session st key now =
     (case find (\<lambda>s. pk s = key) (chat_sessions st) of
        None \<Rightarrow> (False, st)
      | Some session \<Rightarrow>
          (True, st\<lparr>chat_sessions :=
                      update_first (\<lambda>s. pk s = key)
                        (\<lambda>s. session\<lparr>status := CLOSED, closed_at := Some now\<rparr>)
                        (chat_sessions st)\<rparr>))"

text \<open>A sequence of calls, each with the clock reading at which it runs.\<close>

datatype call =
    Send_message string nat string nat
  | Close_session nat nat

fun step :: "state \<Rightarrow> call \<Rightarrow> state" where
  "step st (Send_message sid uid message now) = snd (send_message st sid uid message now)"
| "step st (Close_session key now) = snd (close_session st key now)"

definition run :: "state \<Rightarrow> call list \<Rightarrow> state" where
  "run st calls = fold (\<lambda>c s. step s c) calls st"

fun is_send :: "call \<Rightarrow> bool" where
  "is_send (Send_message sid uid message now) = True"
| "is_send (Close_session key now) = False"


section \<open>Notions the properties are stated with\<close>

text \<open>
  The row \<^verbatim>\<open>cosine_similarity(input_vector, self.knowledge_vectors)\<close> that
  \<^verbatim>\<open>get_response\<close> computes for a query: one similarity per corpus entry, in corpus
  order (empty where the source would have raised before computing it).
\<close>

definition similarities :: "ChatbotEngine \<Rightarrow> string \<Rightarrow> real list" where
  "similarities self user_input =
     (case (transform (vectorizer self) [user_input], knowledge_vectors self) of
        (Inr input_vector, Some kv) \<Rightarrow>
          (case cosine_similarity (hd input_vector) kv of Inr s \<Rightarrow> s | Inl e \<Rightarrow> [])
      | _ \<Rightarrow> [])"

text \<open>The hand-off message of line 70.\<close>

definition handoff :: string where
  "handoff = ''I'm not sure I understand. Let me connect you with a human agent who can help.''"

text \<open>The squared length of a vector, and the unscaled TF-IDF weights of a document.\<close>

definition sq_norm :: "real list \<Rightarrow> real" where
  "sq_norm x = sum_list (map (\<lambda>a. a * a) x)"

definition weighted :: "string list \<Rightarrow> real list \<Rightarrow> string list \<Rightarrow> real list" where
  "weighted voc ws terms = map (\<lambda>(t, w). real (count_list terms t) * w) (zip voc ws)"

text \<open>
  What \<^verbatim>\<open>_initialize\<close> leaves and returns for the questions \<open>qs\<close> and answers
  \<open>as\<close> it has loaded: the fitted engine, or the error of the fit and an engine
  without vectors.
\<close>

definition built_from :: "string list \<Rightarrow> string list \<Rightarrow> (error + unit) \<times> ChatbotEngine" where
  "built_from qs as =
     (case fit new_vectorizer qs of
        Inl err \<Rightarrow>
          (Inl err, \<lparr>vectorizer = new_vectorizer, knowledge_vectors = None,
                     questions = qs, answers = as\<rparr>)
      | Inr v' \<Rightarrow>
          (Inr (), \<lparr>vectorizer = v',
                    knowledge_vectors =
                      Some (map (\<lambda>d. tfidf_row (the (vocabulary v')) (idf v')
                                        (analyze new_vectorizer d)) qs),
                    questions = qs, answers = as\<rparr>))"

text \<open>
  Query as section 4.2 of the specification words it, where the message returned on a
  miss is an argument of the call; it stands beside \<^verbatim>\<open>get_response\<close> for
  comparison and no other definition uses it.
\<close>

definition spec_Query :: "ChatbotEngine \<Rightarrow> string \<Rightarrow> real \<Rightarrow> string \<Rightarrow> string \<times> real \<times> bool" where
  "spec_Query index text threshold fallback =
     (let sims = similarities index text;
          best = Max (set sims);
          entry = hd (filter (\<lambda>i. sims ! i = best) [0 ..< length sims])
      in if best \<ge> threshold then (answers index ! entry, best, False)
         else (fallback, best, True))"

section \<open>Sample data\<close>

text \<open>
  A knowledge base of two active rows, the first one from \<^verbatim>\<open>create_sample_data\<close>;
  every word of the second question is a stop word.
\<close>

definition hours_entry :: KnowledgeBase where
  "hours_entry = \<lparr>question = ''What are your business hours?'',
                   answer = ''Our business hours are Monday to Friday, 9 AM to 6 PM EST.'',
                   category = ''general'', tags = ''hours, timing, business hours'',
                   is_active = True\<rparr>"

definition who_entry :: KnowledgeBase where
  "who_entry = \<lparr>question = ''Who are you?'', answer = ''I am the support assistant.'',
                 category = ''general'', tags = [], is_active = True\<rparr>"

definition sample_kb :: "KnowledgeBase list" where
  "sample_kb = [hours_entry, who_entry]"

text \<open>
  One session of user 42 with its welcome message, served by an engine built from the
  sample knowledge base; the same session escalated at time 3; and closed at time 5.
\<close>

definition demo_session :: ChatSession where
  "demo_session = \<lparr>pk = 1, user_id = 42, session_id = ''tok-1'', status = ACTIVE,
                     created_at = 0, escalated_at = None, closed_at = None\<rparr>"

definition demo_state :: state where
  "demo_state =
     \<lparr>chat_sessions = [demo_session],
      chat_messages = [\<lparr>msg_session = 1, message_type = BOT, content = ''Hi! How may I help you?'',
                        is_escalation_trigger = False, timestamp = 0\<rparr>],
      knowledge_base = sample_kb,
      chatbot = Some (snd (initialize sample_kb))\<rparr>"

definition escalated_state :: state where
  "escalated_state =
     demo_state\<lparr>chat_sessions := [demo_session\<lparr>status := ESCALATED, escalated_at := Some 3\<rparr>]\<rparr>"

definition closed_state :: state where
  "closed_state =
     demo_state\<lparr>chat_sessions :=
       [demo_session\<lparr>status := CLOSED, escalated_at := Some 3, closed_at := Some 5\<rparr>]\<rparr>"

section \<open>The session table under the service calls\<close>

lemma update_first_length [simp]: "length (update_first P f xs) = length xs"
  by (induction xs) auto

lemma update_first_same: "find P xs = Some s \<Longrightarrow> update_first P (\<lambda>r. s) xs = xs"
  by (induction xs) (auto split: if_splits)

lemma update_first_none: "find P xs = None \<Longrightarrow> update_first P f xs = xs"
  by (induction xs) (auto split: if_splits)

lemma update_first_by_row: "find P xs = Some s \<Longrightarrow> update_first P (\<lambda>r. g s) xs = update_first P g xs"
  by (induction xs) (auto split: if_splits)

lemma update_first_nth:
  "i < length xs \<Longrightarrow>
   update_first P f xs ! i = xs ! i \<or>
   (find P xs = Some (xs ! i) \<and> update_first P f xs ! i = f (xs ! i))"
proof (induction xs arbitrary: i)
  case Nil
  then show ?case by simp
next
  case (Cons x xs)
  then show ?case by (cases i) auto
qed

lemma send_message_sessions:
  "chat_sessions (snd (send_message st sid uid message now)) = chat_sessions st \<or>
   chat_sessions (snd (send_message st sid uid message now)) =
     update_first (\<lambda>s. session_id s = sid \<and> user_id s = uid)
       (\<lambda>s. if status s = ACTIVE then s\<lparr>status := ESCALATED, escalated_at := Some now\<rparr> else s)
       (chat_sessions st)"
proof (cases "find (\<lambda>s. session_id s = sid \<and> user_id s = uid) (chat_sessions st)")
  case None
  then show ?thesis by (simp add: send_message_def)
next
  case (Some session)
  obtain r eng where g: "get_response (knowledge_base st) (chatbot st) message (3 / 10) = (r, eng)"
    by (cases "get_response (knowledge_base st) (chatbot st) message (3 / 10)")
  show ?thesis
  proof (cases r)
    case (Inl e)
    with Some g show ?thesis by (simp add: send_message_def)
  next
    case (Inr t)
    obtain reply sim escalate where t: "t = (reply, sim, escalate)" by (cases t)
    show ?thesis
    proof (cases "escalate \<and> status session = ACTIVE")
      case False
      with Some g Inr t show ?thesis
        by (auto simp: send_message_def Let_def update_first_same)
    next
      case True
      have "update_first (\<lambda>s. session_id s = sid \<and> user_id s = uid)
              (\<lambda>s. session\<lparr>status := ESCALATED, escalated_at := Some now\<rparr>) (chat_sessions st) =
            update_first (\<lambda>s. session_id s = sid \<and> user_id s = uid)
              (\<lambda>s. if status s = ACTIVE then s\<lparr>status := ESCALATED, escalated_at := Some now\<rparr> else s)
              (chat_sessions st)"
        using update_first_by_row [OF Some,
            of "\<lambda>s. if status s = ACTIVE then s\<lparr>status := ESCALATED, escalated_at := Some now\<rparr> else s"]
          True by simp
      with Some g Inr t True show ?thesis
        by (simp add: send_message_def Let_def)
    qed
  qed
qed

lemma send_message_length [simp]:
  "length (chat_sessions (snd (send_message st sid uid message now))) = length (chat_sessions st)"
  using send_message_sessions [of st sid uid message now] by auto

lemma send_message_row:
  assumes "i < length (chat_sessions st)"
  shows "chat_sessions (snd (send_message st sid uid message now)) ! i = chat_sessions st ! i \<or>
    (status (chat_sessions st ! i) = ACTIVE \<and>
     chat_sessions (snd (send_message st sid uid message now)) ! i =
       (chat_sessions st ! i)\<lparr>status := ESCALATED, escalated_at := Some now\<rparr>)"
  using send_message_sessions [of st sid uid message now]
    update_first_nth [OF assms, of "\<lambda>s. session_id s = sid \<and> user_id s = uid"
      "\<lambda>s. if status s = ACTIVE then s\<lparr>status := ESCALATED, escalated_at := Some now\<rparr> else s"]
  by (auto split: if_splits)

lemma close_session_sessions:
  "chat_sessions (snd (close_session st key now)) =
     update_first (\<lambda>s. pk s = key) (\<lambda>s. s\<lparr>status := CLOSED, closed_at := Some now\<rparr>)
       (chat_sessions st)"
proof (cases "find (\<lambda>s. pk s = key) (chat_sessions st)")
  case None
  then show ?thesis by (simp add: close_session_def update_first_none)
next
  case (Some session)
  then show ?thesis
    using update_first_by_row [OF Some, of "\<lambda>s. s\<lparr>status := CLOSED, closed_at := Some now\<rparr>"]
    by (simp add: close_session_def)
qed

lemma close_session_length [simp]:
  "length (chat_sessions (snd (close_session st key now))) = length (chat_sessions st)"
  by (simp add: close_session_sessions)

lemma close_session_row:
  assumes "i < length (chat_sessions st)"
  shows "chat_sessions (snd (close_session st key now)) ! i = chat_sessions st ! i \<or>
     chat_sessions (snd (close_session st key now)) ! i =
       (chat_sessions st ! i)\<lparr>status := CLOSED, closed_at := Some now\<rparr>"
  using update_first_nth [OF assms, of "\<lambda>s. pk s = key"
      "\<lambda>s. s\<lparr>status := CLOSED, closed_at := Some now\<rparr>"]
  by (auto simp: close_session_sessions)

lemma step_length [simp]: "length (chat_sessions (step st c)) = length (chat_sessions st)"
  by (cases c) simp_all

lemma step_row:
  assumes "i < length (chat_sessions st)"
  shows "pk (chat_sessions (step st c) ! i) = pk (chat_sessions st ! i)"
    and "status (chat_sessions st ! i) \<noteq> ACTIVE \<Longrightarrow> status (chat_sessions (step st c) ! i) \<noteq> ACTIVE"
    and "status (chat_sessions st ! i) \<noteq> ACTIVE \<Longrightarrow> is_send c \<Longrightarrow>
           chat_sessions (step st c) ! i = chat_sessions st ! i"
proof -
  show "pk (chat_sessions (step st c) ! i) = pk (chat_sessions st ! i)"
  proof (cases c)
    case (Send_message sid uid message now)
    then show ?thesis using send_message_row [OF assms, of sid uid message now] by auto
  next
    case (Close_session key now)
    then show ?thesis using close_session_row [OF assms, of key now] by auto
  qed
  show "status (chat_sessions (step st c) ! i) \<noteq> ACTIVE" if "status (chat_sessions st ! i) \<noteq> ACTIVE"
  proof (cases c)
    case (Send_message sid uid message now)
    then show ?thesis using that send_message_row [OF assms, of sid uid message now] by auto
  next
    case (Close_session key now)
    then show ?thesis using that close_session_row [OF assms, of key now] by auto
  qed
  show "chat_sessions (step st c) ! i = chat_sessions st ! i"
    if "status (chat_sessions st ! i) \<noteq> ACTIVE" "is_send c"
  proof (cases c)
    case (Send_message sid uid message now)
    then show ?thesis using that send_message_row [OF assms, of sid uid message now] by auto
  next
    case (Close_session key now)
    then show ?thesis using that by simp
  qed
qed

lemma run_Nil [simp]: "run st [] = st"
  by (simp add: run_def)

lemma run_Cons [simp]: "run st (c # cs) = run (step st c) cs"
  by (simp add: run_def)

lemma run_append: "run st (cs @ ds) = run (run st cs) ds"
  by (simp add: run_def)

lemma run_length [simp]: "length (chat_sessions (run st cs)) = length (chat_sessions st)"
  by (induction cs arbitrary: st) simp_all

lemma run_pk: "i < length (chat_sessions st) \<Longrightarrow> pk (chat_sessions (run st cs) ! i) = pk (chat_sessions st ! i)"
  by (induction cs arbitrary: st) (simp_all add: step_row(1))

lemma run_not_active:
  "i < length (chat_sessions st) \<Longrightarrow> status (chat_sessions st ! i) \<noteq> ACTIVE \<Longrightarrow>
   status (chat_sessions (run st cs) ! i) \<noteq> ACTIVE"
  by (induction cs arbitrary: st) (simp_all add: step_row(2))

lemma run_sends_row:
  "i < length (chat_sessions st) \<Longrightarrow> status (chat_sessions st ! i) \<noteq> ACTIVE \<Longrightarrow>
   list_all is_send cs \<Longrightarrow> chat_sessions (run st cs) ! i = chat_sessions st ! i"
proof (induction cs arbitrary: st)
  case Nil
  then show ?case by simp
next
  case (Cons c cs)
  then have "chat_sessions (step st c) ! i = chat_sessions st ! i"
    by (simp add: step_row(3))
  with Cons show ?case by simp
qed

section \<open>Vectors: length, scaling and the Cauchy-Schwarz bound\<close>

lemma sq_norm_simps [simp]: "sq_norm [] = 0" "sq_norm (a # x) = a * a + sq_norm x"
  by (simp_all add: sq_norm_def)

lemma dot_simps [simp]: "dot [] y = 0" "dot x [] = 0" "dot (a # x) (b # y) = a * b + dot x y"
  by (simp_all add: dot_def)

lemma sq_norm_nonneg: "0 \<le> sq_norm x"
  by (induction x) auto

lemma sq_norm_dot: "sq_norm x = dot x x"
  by (induction x) auto

lemma cs_step:
  fixes a b S A B :: real
  assumes S: "S\<^sup>2 \<le> A * B" and A: "0 \<le> A" and B: "0 \<le> B"
  shows "(a * b + S)\<^sup>2 \<le> (a * a + A) * (b * b + B)"
proof -
  have "(2 * (a * b) * S)\<^sup>2 = 4 * (a * b)\<^sup>2 * S\<^sup>2"
    by (simp add: power2_eq_square)
  also have "\<dots> \<le> 4 * (a * b)\<^sup>2 * (A * B)"
    using S by (intro mult_left_mono) auto
  also have "\<dots> \<le> (a * a * B + b * b * A)\<^sup>2"
  proof -
    have "0 \<le> (a * a * B - b * b * A)\<^sup>2" by simp
    then show ?thesis by (simp add: power2_eq_square algebra_simps)
  qed
  finally have "(2 * (a * b) * S)\<^sup>2 \<le> (a * a * B + b * b * A)\<^sup>2" .
  moreover have "0 \<le> a * a * B + b * b * A"
    using A B by simp
  ultimately have "2 * (a * b) * S \<le> a * a * B + b * b * A"
    by (rule power2_le_imp_le)
  moreover have "(a * b + S)\<^sup>2 = (a * b)\<^sup>2 + 2 * (a * b) * S + S\<^sup>2"
    by (simp add: power2_eq_square algebra_simps)
  moreover have "(a * a + A) * (b * b + B) = (a * b)\<^sup>2 + (a * a * B + b * b * A) + A * B"
    by (simp add: power2_eq_square algebra_simps)
  ultimately show ?thesis using S by linarith
qed

lemma cauchy_schwarz: "(dot x y)\<^sup>2 \<le> sq_norm x * sq_norm y"
proof (induction x y rule: list_induct2')
  case (4 a x b y)
  then show ?case
    using cs_step [of "dot x y" "sq_norm x" "sq_norm y" a b]
    by (simp add: sq_norm_nonneg)
qed (simp_all add: sq_norm_nonneg)

lemma length_l2_normalize [simp]: "length (l2_normalize x) = length x"
  by (simp add: l2_normalize_def Let_def)

lemma sq_norm_scale: "sq_norm (map (\<lambda>a. a / n) x) = sq_norm x / (n * n)"
  by (induction x) (auto simp: add_divide_distrib)

lemma dot_scale: "dot (map (\<lambda>a. a / n) x) (map (\<lambda>a. a / m) y) = dot x y / (n * m)"
  by (induction x y rule: list_induct2') (auto simp: add_divide_distrib)

lemma sq_norm_l2_normalize:
  "sq_norm (l2_normalize x) = (if sq_norm x = 0 then 0 else 1)"
proof (cases "sq_norm x = 0")
  case True
  then show ?thesis by (simp add: l2_normalize_def sq_norm_def)
next
  case False
  then have "0 < sq_norm x" using sq_norm_nonneg [of x] by simp
  then show ?thesis
    using False by (simp add: l2_normalize_def Let_def sq_norm_scale flip: sq_norm_def)
qed

lemma l2_normalize_idem: "l2_normalize (l2_normalize x) = l2_normalize x"
proof -
  have "sqrt (sq_norm (l2_normalize x)) = 0 \<or> sqrt (sq_norm (l2_normalize x)) = 1"
    by (simp add: sq_norm_l2_normalize)
  then show ?thesis
    unfolding l2_normalize_def [of "l2_normalize x"] Let_def sq_norm_def [symmetric]
    by auto
qed

lemma dot_l2_normalize_le_1: "dot (l2_normalize x) (l2_normalize y) \<le> 1"
proof -
  have "(dot (l2_normalize x) (l2_normalize y))\<^sup>2 \<le> sq_norm (l2_normalize x) * sq_norm (l2_normalize y)"
    by (rule cauchy_schwarz)
  also have "\<dots> \<le> 1 * 1"
    by (intro mult_mono) (auto simp: sq_norm_l2_normalize)
  finally have "(dot (l2_normalize x) (l2_normalize y))\<^sup>2 \<le> 1\<^sup>2" by simp
  then show ?thesis by (rule power2_le_imp_le) simp
qed

lemma dot_self_l2_normalize: "sq_norm x \<noteq> 0 \<Longrightarrow> dot (l2_normalize x) (l2_normalize x) = 1"
  using sq_norm_l2_normalize [of x] by (simp add: sq_norm_dot)

lemma dot_nonneg: "\<forall>a \<in> set x. 0 \<le> a \<Longrightarrow> \<forall>b \<in> set y. 0 \<le> b \<Longrightarrow> 0 \<le> dot x y"
  by (induction x y rule: list_induct2') auto

lemma l2_normalize_nonneg: "\<forall>a \<in> set x. 0 \<le> a \<Longrightarrow> \<forall>a \<in> set (l2_normalize x). 0 \<le> a"
  using sq_norm_nonneg [of x]
  by (auto simp: l2_normalize_def Let_def simp flip: sq_norm_def)

lemma sq_norm_zero_iff: "sq_norm x = 0 \<longleftrightarrow> (\<forall>a \<in> set x. a = 0)"
proof (induction x)
  case (Cons a x)
  have "a * a + sq_norm x = 0 \<longleftrightarrow> a = 0 \<and> sq_norm x = 0"
    using sq_norm_nonneg [of x] by (smt (verit) mult_eq_0_iff zero_le_square)
  with Cons show ?case by simp
qed simp

lemma dot_zero_left: "\<forall>a \<in> set x. a = 0 \<Longrightarrow> dot x y = 0"
  by (induction x y rule: list_induct2') auto

section \<open>Maximum and first index of the maximum\<close>

lemma np_max_Max: "xs \<noteq> [] \<Longrightarrow> np_max xs = Max (set xs)"
  by (cases xs) (simp_all add: np_max_def Max.set_eq_fold del: set_simps)

lemma first_index_less: "\<exists>x \<in> set xs. P x \<Longrightarrow> first_index P xs < length xs"
  by (induction xs) auto

lemma first_index_holds: "\<exists>x \<in> set xs. P x \<Longrightarrow> P (xs ! first_index P xs)"
  by (induction xs) auto

lemma first_index_before: "j < first_index P xs \<Longrightarrow> \<not> P (xs ! j)"
proof (induction xs arbitrary: j)
  case Nil
  then show ?case by simp
next
  case (Cons x xs)
  then show ?case by (cases j) (auto split: if_splits)
qed

lemma first_index_le: "i < length xs \<Longrightarrow> P (xs ! i) \<Longrightarrow> first_index P xs \<le> i"
  using first_index_before [of i P xs] by (cases "first_index P xs \<le> i") auto

lemma np_max_mem: "xs \<noteq> [] \<Longrightarrow> np_max xs \<in> set xs"
  using Max_in [of "set xs"] by (simp add: np_max_Max)

lemma np_max_ge: "i < length xs \<Longrightarrow> xs ! i \<le> np_max xs"
  by (cases "xs = []") (simp_all add: np_max_Max)

lemma np_argmax_less: "xs \<noteq> [] \<Longrightarrow> np_argmax xs < length xs"
  unfolding np_argmax_def using np_max_mem [of xs] by (intro first_index_less) auto

lemma np_argmax_max: "xs \<noteq> [] \<Longrightarrow> xs ! np_argmax xs = np_max xs"
  unfolding np_argmax_def using np_max_mem [of xs]
  first_index_holds [of xs "\<lambda>x. x = np_max xs"] by auto

lemma np_argmax_first: "j < np_argmax xs \<Longrightarrow> xs ! j < np_max xs"
proof -
  assume j: "j < np_argmax xs"
  then have "xs ! j \<noteq> np_max xs"
    unfolding np_argmax_def by (rule first_index_before)
  moreover have "j < length xs"
  proof (cases "xs = []")
    case True
    with j show ?thesis by (simp add: np_argmax_def)
  next
    case False
    with j np_argmax_less [of xs] show ?thesis by simp
  qed
  ultimately show ?thesis using np_max_ge [of j xs] by simp
qed

section \<open>What a build leaves in the engine\<close>

lemma length_tfidf_row: "length (tfidf_row voc ws terms) = min (length voc) (length ws)"
  by (simp add: tfidf_row_def)

lemma analyze_fitted: "fit v docs = Inr v' \<Longrightarrow> analyze v' = analyze v"
  by (auto simp: fit_def Let_def analyze_def fun_eq_iff split: if_splits)

lemma fit_Inr:
  assumes "fit v docs = Inr v'"
  shows "count_vocab v docs \<noteq> []"
    and "vocabulary v' = Some (limit_features v docs (count_vocab v docs))"
    and "idf v' = map (idf_weight v docs) (limit_features v docs (count_vocab v docs))"
    and "stop_words v' = stop_words v" and "ngram_range v' = ngram_range v"
  using assms by (auto simp: fit_def Let_def split: if_splits)

lemma fit_Inl: "fit v docs = Inl err \<Longrightarrow> err = ValueError \<and> count_vocab v docs = []"
  by (auto simp: fit_def Let_def split: if_splits)

lemma fit_transform_eq:
  "fit_transform v docs =
     (case fit v docs of
        Inl err \<Rightarrow> Inl err
      | Inr v' \<Rightarrow>
          Inr (v', map (\<lambda>d. tfidf_row (the (vocabulary v')) (idf v') (analyze v d)) docs))"
proof (cases "fit v docs")
  case (Inl err)
  then show ?thesis by (simp add: fit_transform_def)
next
  case (Inr v')
  then show ?thesis
    using fit_Inr(2) [OF Inr] analyze_fitted [OF Inr]
    by (simp add: fit_transform_def transform_def)
qed

lemma initialize_eq:
  "initialize kb =
     (if filter is_active kb = []
      then built_from [''hello'', ''hi'', ''greetings'']
             [''Hello! How can I help you today?'', ''Hi there! What can I assist you with?'',
              ''Greetings! How may I be of service?'']
      else built_from (map question (filter is_active kb)) (map answer (filter is_active kb)))"
  by (simp add: initialize_def load_knowledge_base_def Let_def fit_transform_eq built_from_def
      split: sum.splits)

lemma idf_weight_ge_1: "1 \<le> idf_weight v docs t"
proof -
  have "length (filter (\<lambda>d. t \<in> set (analyze v d)) docs) \<le> length docs"
    by (rule length_filter_le)
  then have "1 \<le> (1 + real (length docs)) /
      (1 + real (length (filter (\<lambda>d. t \<in> set (analyze v d)) docs)))"
    by (simp add: le_divide_eq)
  then show ?thesis by (simp add: idf_weight_def)
qed

lemma tfidf_row_weighted: "tfidf_row voc ws terms = l2_normalize (weighted voc ws terms)"
  by (simp add: tfidf_row_def weighted_def)

lemma weighted_nonneg:
  "\<forall>w \<in> set ws. 0 \<le> w \<Longrightarrow> \<forall>a \<in> set (weighted voc ws terms). 0 \<le> a"
  by (auto simp: weighted_def dest: set_zip_rightD)

lemma weighted_zero:
  "set terms \<inter> set voc = {} \<Longrightarrow> \<forall>a \<in> set (weighted voc ws terms). a = 0"
  by (auto simp: weighted_def count_list_0_iff dest!: set_zip_leftD)

lemma weighted_map: "weighted voc (map f voc) terms = map (\<lambda>t. real (count_list terms t) * f t) voc"
  by (simp add: weighted_def zip_map2 zip_same_conv_map)

lemma weighted_nonzero:
  assumes "t \<in> set terms" "t \<in> set voc" "\<forall>t \<in> set voc. f t \<noteq> 0"
  shows "sq_norm (weighted voc (map f voc) terms) \<noteq> 0"
proof -
  have "count_list terms t \<noteq> 0" using assms(1) by (simp add: count_list_0_iff)
  then have "real (count_list terms t) * f t \<noteq> 0" using assms(2,3) by simp
  then have "\<exists>a \<in> set (weighted voc (map f voc) terms). a \<noteq> 0"
    using assms(2) unfolding weighted_map by auto
  then show ?thesis by (simp add: sq_norm_zero_iff)
qed

lemma built_from_Inr:
  assumes b: "built_from qs as = (Inr (), e)"
  defines "voc \<equiv> limit_features new_vectorizer qs (count_vocab new_vectorizer qs)"
  defines "ws \<equiv> map (idf_weight new_vectorizer qs) voc"
  shows "questions e = qs" and "answers e = as"
    and "vocabulary (vectorizer e) = Some voc" and "idf (vectorizer e) = ws"
    and "analyze (vectorizer e) = analyze new_vectorizer"
    and "knowledge_vectors e =
           Some (map (\<lambda>d. tfidf_row voc ws (analyze new_vectorizer d)) qs)"
    and "count_vocab new_vectorizer qs \<noteq> []"
proof -
  obtain v' where f: "fit new_vectorizer qs = Inr v'"
    using b by (cases "fit new_vectorizer qs") (auto simp: built_from_def)
  have e: "e = \<lparr>vectorizer = v',
                knowledge_vectors =
                  Some (map (\<lambda>d. tfidf_row (the (vocabulary v')) (idf v')
                                    (analyze new_vectorizer d)) qs),
                questions = qs, answers = as\<rparr>"
    using b f by (simp add: built_from_def)
  show "questions e = qs" "answers e = as" by (simp_all add: e)
  show "vocabulary (vectorizer e) = Some voc" "idf (vectorizer e) = ws"
    using fit_Inr(2,3) [OF f] by (simp_all add: e voc_def ws_def)
  show "analyze (vectorizer e) = analyze new_vectorizer"
    using analyze_fitted [OF f] by (simp add: e)
  show "knowledge_vectors e = Some (map (\<lambda>d. tfidf_row voc ws (analyze new_vectorizer d)) qs)"
    using fit_Inr(2,3) [OF f] by (simp add: e voc_def ws_def)
  show "count_vocab new_vectorizer qs \<noteq> []" by (rule fit_Inr(1) [OF f])
qed

lemma initialize_built_from:
  assumes "initialize kb = (Inr (), e)"
  shows "built_from (questions e) (answers e) = (Inr (), e)"
    and "questions e \<noteq> []" and "length (answers e) = length (questions e)"
proof -
  have "\<exists>qs as. qs \<noteq> [] \<and> length as = length qs \<and> built_from qs as = (Inr (), e)"
  proof (cases "filter is_active kb = []")
    case True
    with assms have "built_from [''hello'', ''hi'', ''greetings'']
      [''Hello! How can I help you today?'', ''Hi there! What can I assist you with?'',
       ''Greetings! How may I be of service?''] = (Inr (), e)"
      by (simp add: initialize_eq)
    then show ?thesis by (intro exI conjI) simp_all
  next
    case False
    with assms have "built_from (map question (filter is_active kb))
        (map answer (filter is_active kb)) = (Inr (), e)"
      by (simp add: initialize_eq)
    with False show ?thesis by (intro exI conjI) simp_all
  qed
  then obtain qs as where q: "qs \<noteq> []" "length as = length qs"
    and b: "built_from qs as = (Inr (), e)"
    by blast
  show "built_from (questions e) (answers e) = (Inr (), e)"
    using b built_from_Inr(1,2) [OF b] by simp
  show "questions e \<noteq> []" "length (answers e) = length (questions e)"
    using q built_from_Inr(1,2) [OF b] by simp_all
qed

section \<open>Responses of a built engine\<close>

lemma similarities_built:
  assumes "initialize kb = (Inr (), e)"
  defines "voc \<equiv> the (vocabulary (vectorizer e))"
  defines "ws \<equiv> idf (vectorizer e)"
  shows "similarities e q =
           map (\<lambda>d. dot (tfidf_row voc ws (analyze new_vectorizer q))
                          (tfidf_row voc ws (analyze new_vectorizer d))) (questions e)"
    and "cosine_similarity (tfidf_row voc ws (analyze new_vectorizer q)) (the (knowledge_vectors e)) =
           Inr (similarities e q)"
proof -
  note b = initialize_built_from(1) [OF assms(1)]
  note f = built_from_Inr [OF b]
  have ws: "length ws = length voc" using f(3,4) by (simp add: ws_def voc_def)
  have kv: "knowledge_vectors e =
      Some (map (\<lambda>d. tfidf_row voc ws (analyze new_vectorizer d)) (questions e))"
    using f(3,4,6) by (simp add: voc_def ws_def)
  have tr: "transform (vectorizer e) [q] = Inr [tfidf_row voc ws (analyze new_vectorizer q)]"
    using f(3,5) by (simp add: transform_def voc_def ws_def)
  have cs: "cosine_similarity (tfidf_row voc ws (analyze new_vectorizer q))
        (map (\<lambda>d. tfidf_row voc ws (analyze new_vectorizer d)) (questions e)) =
      Inr (map (\<lambda>d. dot (tfidf_row voc ws (analyze new_vectorizer q))
                          (tfidf_row voc ws (analyze new_vectorizer d))) (questions e))"
    using initialize_built_from(2) [OF assms(1)]
    by (simp add: cosine_similarity_def length_tfidf_row o_def)
      (simp add: tfidf_row_def l2_normalize_idem)
  show s: "similarities e q =
           map (\<lambda>d. dot (tfidf_row voc ws (analyze new_vectorizer q))
                          (tfidf_row voc ws (analyze new_vectorizer d))) (questions e)"
    by (simp add: similarities_def tr kv cs)
  show "cosine_similarity (tfidf_row voc ws (analyze new_vectorizer q)) (the (knowledge_vectors e)) =
           Inr (similarities e q)"
    by (simp add: s kv cs)
qed

lemma lookup_response_built:
  assumes "initialize kb = (Inr (), e)"
  shows "lookup_response e q th =
     Inr (if th \<le> np_max (similarities e q)
          then (answers e ! np_argmax (similarities e q), np_max (similarities e q), False)
          else (handoff, np_max (similarities e q), True))"
proof -
  note b = initialize_built_from [OF assms(1)]
  note f = built_from_Inr [OF b(1)]
  note s = similarities_built [OF assms(1), of q]
  have tr: "transform (vectorizer e) [q] =
      Inr [tfidf_row (the (vocabulary (vectorizer e))) (idf (vectorizer e)) (analyze new_vectorizer q)]"
    using f(3,5) by (simp add: transform_def)
  have ne: "similarities e q \<noteq> []" using b(2) by (simp add: s(1))
  have "np_argmax (similarities e q) < length (answers e)"
    using np_argmax_less [OF ne] b(3) by (simp add: s(1))
  moreover obtain kv where kv: "knowledge_vectors e = Some kv" using f(6) by simp
  ultimately show ?thesis
    using s(2) b(2) by (simp add: lookup_response_def tr kv Let_def handoff_def)
qed

lemma get_response_built:
  assumes "initialize kb = (Inr (), e)"
  shows "get_response kb' (Some e) q th = (lookup_response e q th, Some e)"
  using built_from_Inr(6) [OF initialize_built_from(1) [OF assms]]
  by (simp add: get_response_def)

text \<open>
  In exact arithmetic every similarity of a built engine lies between 0 and 1. The
  library computes it in 64-bit floating point, whose rounding these definitions do
  not describe.
\<close>

lemma similarities_bounds:
  assumes "initialize kb = (Inr (), e)" and "s \<in> set (similarities e q)"
  shows "0 \<le> s \<and> s \<le> 1"
proof -
  note f = built_from_Inr [OF initialize_built_from(1) [OF assms(1)]]
  have w: "\<forall>w \<in> set (idf (vectorizer e)). 0 \<le> w"
    using idf_weight_ge_1 [of new_vectorizer "questions e"]
    by (auto simp: f(4) intro: order_trans [of 0 1])
  have nn: "\<forall>a \<in> set (tfidf_row (the (vocabulary (vectorizer e))) (idf (vectorizer e)) terms). 0 \<le> a" for terms
    unfolding tfidf_row_weighted
    by (intro l2_normalize_nonneg weighted_nonneg w)
  show ?thesis
    using assms(2) unfolding similarities_built(1) [OF assms(1)]
    by (auto simp: tfidf_row_weighted dot_l2_normalize_le_1 intro!: dot_nonneg nn [unfolded tfidf_row_weighted])
qed

lemma similarity_self:
  assumes "initialize kb = (Inr (), e)" and "i < length (questions e)"
    and "t \<in> set (analyze new_vectorizer (questions e ! i))"
    and "t \<in> set (the (vocabulary (vectorizer e)))"
  shows "similarities e (questions e ! i) ! i = 1"
proof -
  note f = built_from_Inr [OF initialize_built_from(1) [OF assms(1)]]
  let ?voc = "the (vocabulary (vectorizer e))"
  have ws: "idf (vectorizer e) = map (idf_weight new_vectorizer (questions e)) ?voc"
    using f(3,4) by simp
  have "\<forall>t \<in> set ?voc. idf_weight new_vectorizer (questions e) t \<noteq> 0"
    using idf_weight_ge_1 [of new_vectorizer "questions e"] by (metis not_one_le_zero)
  then have "sq_norm (weighted ?voc (idf (vectorizer e)) (analyze new_vectorizer (questions e ! i))) \<noteq> 0"
    unfolding ws using assms(3,4) by (intro weighted_nonzero [of t]) auto
  then show ?thesis
    using assms(2)
    by (simp add: similarities_built(1) [OF assms(1)] tfidf_row_weighted dot_self_l2_normalize)
qed

lemma similarities_no_overlap:
  assumes "initialize kb = (Inr (), e)"
    and "set (analyze new_vectorizer q) \<inter> set (the (vocabulary (vectorizer e))) = {}"
  shows "similarities e q = replicate (length (questions e)) 0"
proof -
  have z: "\<forall>a \<in> set (tfidf_row (the (vocabulary (vectorizer e))) (idf (vectorizer e))
      (analyze new_vectorizer q)). a = 0"
    using weighted_zero [OF assms(2), of "idf (vectorizer e)"]
    by (simp add: tfidf_row_weighted l2_normalize_def Let_def sq_norm_zero_iff flip: sq_norm_def)
  show ?thesis
    unfolding similarities_built(1) [OF assms(1)]
    by (simp add: dot_zero_left [OF z] map_replicate_const)
qed

section \<open>The sample knowledge base\<close>

lemma built_from_ok:
  "count_vocab new_vectorizer qs \<noteq> [] \<Longrightarrow> built_from qs as = (Inr (), snd (built_from qs as))"
  by (simp add: built_from_def fit_def Let_def)

lemma sample_questions:
  "filter is_active sample_kb = sample_kb"
  "map question sample_kb = [''What are your business hours?'', ''Who are you?'']"
  "map answer sample_kb = [''Our business hours are Monday to Friday, 9 AM to 6 PM EST.'', ''I am the support assistant.'']"
  by (simp_all add: sample_kb_def who_entry_def hours_entry_def)

lemma limit_features_small: "length voc \<le> 1000 \<Longrightarrow> limit_features new_vectorizer docs voc = voc"
  by (simp add: limit_features_def new_vectorizer_def)

lemma sample_vocab:
  "count_vocab new_vectorizer [''What are your business hours?'', ''Who are you?''] =
     [''business'', ''business hours'', ''hours'']"
  by code_simp

lemma fallback_vocab:
  "count_vocab new_vectorizer [''hello'', ''hi'', ''greetings''] = [''greetings'', ''hello'', ''hi'']"
  by code_simp

lemma analyze_who: "analyze new_vectorizer ''Who are you?'' = []"
  by code_simp

lemma analyze_hello: "analyze new_vectorizer ''hello'' = [''hello'']"
  by code_simp

lemma analyze_hours:
  "analyze new_vectorizer ''What are your business hours?'' = [''business'', ''hours'', ''business hours'']"
  by code_simp

lemma analyze_noise:
  "analyze new_vectorizer ''asdkjf qpwoei'' = [''asdkjf'', ''qpwoei'', ''asdkjf qpwoei'']"
  by code_simp

lemma sample_built: "initialize sample_kb = (Inr (), snd (initialize sample_kb))"
proof -
  have "initialize sample_kb =
      built_from [''What are your business hours?'', ''Who are you?'']
        [''Our business hours are Monday to Friday, 9 AM to 6 PM EST.'', ''I am the support assistant.'']"
    unfolding initialize_eq sample_questions by (simp add: sample_kb_def)
  then show ?thesis
    using built_from_ok [of "[''What are your business hours?'', ''Who are you?'']"]
    by (simp add: sample_vocab)
qed

lemma sample_engine:
  "questions (snd (initialize sample_kb)) = [''What are your business hours?'', ''Who are you?'']"
  "answers (snd (initialize sample_kb)) = [''Our business hours are Monday to Friday, 9 AM to 6 PM EST.'', ''I am the support assistant.'']"
  "vocabulary (vectorizer (snd (initialize sample_kb))) = Some [''business'', ''business hours'', ''hours'']"
proof -
  have i: "initialize sample_kb =
      built_from [''What are your business hours?'', ''Who are you?'']
        [''Our business hours are Monday to Friday, 9 AM to 6 PM EST.'', ''I am the support assistant.'']"
    unfolding initialize_eq sample_questions by (simp add: sample_kb_def)
  have b: "built_from [''What are your business hours?'', ''Who are you?'']
        [''Our business hours are Monday to Friday, 9 AM to 6 PM EST.'', ''I am the support assistant.''] =
      (Inr (), snd (initialize sample_kb))"
    using sample_built by (simp add: i)
  show "questions (snd (initialize sample_kb)) = [''What are your business hours?'', ''Who are you?'']"
    by (rule built_from_Inr(1) [OF b])
  show "answers (snd (initialize sample_kb)) = [''Our business hours are Monday to Friday, 9 AM to 6 PM EST.'', ''I am the support assistant.'']"
    by (rule built_from_Inr(2) [OF b])
  show "vocabulary (vectorizer (snd (initialize sample_kb))) = Some [''business'', ''business hours'', ''hours'']"
    using built_from_Inr(3) [OF b] by (simp add: sample_vocab limit_features_small)
qed

lemma self_match:
  assumes "initialize kb = (Inr (), e)" and "i < length (questions e)"
    and "t \<in> set (analyze new_vectorizer (questions e ! i))"
    and "t \<in> set (the (vocabulary (vectorizer e)))"
  shows "np_max (similarities e (questions e ! i)) = 1"
    and "np_argmax (similarities e (questions e ! i)) \<le> i"
proof -
  let ?s = "similarities e (questions e ! i)"
  have len: "length ?s = length (questions e)"
    by (simp add: similarities_built(1) [OF assms(1)])
  have one: "?s ! i = 1" by (rule similarity_self [OF assms])
  have ne: "?s \<noteq> []" using len assms(2) by auto
  have "np_max ?s \<le> 1"
    using np_max_mem [OF ne] similarities_bounds [OF assms(1)] by blast
  moreover have "1 \<le> np_max ?s"
    using np_max_ge [of i ?s] len assms(2) one by simp
  ultimately show m: "np_max ?s = 1" by simp
  show "np_argmax ?s \<le> i"
    unfolding np_argmax_def using len assms(2) one m by (intro first_index_le) simp_all
qed

lemma no_overlap_response:
  assumes "initialize kb = (Inr (), e)"
    and "set (analyze new_vectorizer q) \<inter> set (the (vocabulary (vectorizer e))) = {}"
    and "0 < th"
  shows "lookup_response e q th = Inr (handoff, 0, True)"
proof -
  have "questions e \<noteq> []" by (rule initialize_built_from(2) [OF assms(1)])
  then have "np_max (replicate (length (questions e)) 0) = 0"
    by (simp add: np_max_Max)
  then show ?thesis
    using assms(3)
    by (simp add: lookup_response_built [OF assms(1)] similarities_no_overlap [OF assms(1,2)])
qed

lemma self_match_response:
  assumes "initialize kb = (Inr (), e)" and "i < length (questions e)"
    and "t \<in> set (analyze new_vectorizer (questions e ! i))"
    and "t \<in> set (the (vocabulary (vectorizer e)))"
    and "th \<le> 1"
  shows "\<exists>j \<le> i. similarities e (questions e ! i) ! j = 1 \<and>
           (\<forall>k < j. similarities e (questions e ! i) ! k < 1) \<and>
           get_response kb' (Some e) (questions e ! i) th = (Inr (answers e ! j, 1, False), Some e)"
proof -
  let ?s = "similarities e (questions e ! i)"
  note m = self_match [OF assms(1-4)]
  have ne: "?s \<noteq> []"
    using assms(2) by (auto simp: similarities_built(1) [OF assms(1)])
  have "?s ! np_argmax ?s = 1" using np_argmax_max [OF ne] m(1) by simp
  moreover have "\<forall>k < np_argmax ?s. ?s ! k < 1"
    using np_argmax_first [of _ ?s] m(1) by simp
  moreover have "get_response kb' (Some e) (questions e ! i) th =
      (Inr (answers e ! np_argmax ?s, 1, False), Some e)"
    using assms(5) m(1)
    by (simp add: get_response_built [OF assms(1)] lookup_response_built [OF assms(1)])
  ultimately show ?thesis using m(2) by blast
qed

lemma sample_noise:
  "get_response kb' (Some (snd (initialize sample_kb))) ''asdkjf qpwoei'' (3 / 10) =
     (Inr (handoff, 0, True), Some (snd (initialize sample_kb)))"
proof -
  have "lookup_response (snd (initialize sample_kb)) ''asdkjf qpwoei'' (3 / 10) = Inr (handoff, 0, True)"
    by (rule no_overlap_response [OF sample_built]) (simp_all add: sample_engine(3) analyze_noise)
  then show ?thesis by (simp add: get_response_built [OF sample_built])
qed

text \<open>
  A question of stop words only has the zero vector, in floating point as here: asked
  verbatim, it has similarity 0 with every entry, its own included, and is escalated.
\<close>

lemma sample_who:
  "similarities (snd (initialize sample_kb)) ''Who are you?'' = [0, 0]"
  "get_response kb' (Some (snd (initialize sample_kb))) ''Who are you?'' (3 / 10) =
     (Inr (handoff, 0, True), Some (snd (initialize sample_kb)))"
proof -
  have o: "set (analyze new_vectorizer ''Who are you?'') \<inter>
      set (the (vocabulary (vectorizer (snd (initialize sample_kb))))) = {}"
    by (simp add: analyze_who)
  show "similarities (snd (initialize sample_kb)) ''Who are you?'' = [0, 0]"
    using similarities_no_overlap [OF sample_built o] by (simp add: sample_engine(1))
  have "lookup_response (snd (initialize sample_kb)) ''Who are you?'' (3 / 10) = Inr (handoff, 0, True)"
    by (rule no_overlap_response [OF sample_built o]) simp
  then show "get_response kb' (Some (snd (initialize sample_kb))) ''Who are you?'' (3 / 10) =
     (Inr (handoff, 0, True), Some (snd (initialize sample_kb)))"
    by (simp add: get_response_built [OF sample_built])
qed

lemma sample_hours:
  "get_response kb' (Some (snd (initialize sample_kb))) ''What are your business hours?'' (3 / 10) =
     (Inr (''Our business hours are Monday to Friday, 9 AM to 6 PM EST.'', 1, False),
      Some (snd (initialize sample_kb)))"
proof -
  have t: "''business'' \<in> set (analyze new_vectorizer (questions (snd (initialize sample_kb)) ! 0))"
    "''business'' \<in> set (the (vocabulary (vectorizer (snd (initialize sample_kb)))))"
    by (simp_all add: sample_engine analyze_hours)
  have i: "0 < length (questions (snd (initialize sample_kb)))" by (simp add: sample_engine(1))
  show ?thesis
    using self_match_response [OF sample_built i t, of "3 / 10" kb']
    by (simp add: sample_engine(1,2))
qed

text \<open>The engine built from a knowledge base without active rows.\<close>

lemma greetings_built:
  "built_from [''hello'', ''hi'', ''greetings'']
     [''Hello! How can I help you today?'', ''Hi there! What can I assist you with?'',
      ''Greetings! How may I be of service?''] =
   (Inr (), snd (initialize []))"
  using built_from_ok [of "[''hello'', ''hi'', ''greetings'']"]
  by (simp add: initialize_eq fallback_vocab)

lemma greetings_initialize:
  "filter is_active kb = [] \<Longrightarrow> initialize kb = (Inr (), snd (initialize []))"
  using greetings_built by (simp add: initialize_eq)

lemma greetings_engine:
  "questions (snd (initialize [])) = [''hello'', ''hi'', ''greetings'']"
  "answers (snd (initialize [])) =
     [''Hello! How can I help you today?'', ''Hi there! What can I assist you with?'',
      ''Greetings! How may I be of service?'']"
  "vocabulary (vectorizer (snd (initialize []))) = Some [''greetings'', ''hello'', ''hi'']"
  "\<exists>X. knowledge_vectors (snd (initialize [])) = Some X \<and> length X = 3"
proof -
  note b = built_from_Inr [OF greetings_built]
  show "questions (snd (initialize [])) = [''hello'', ''hi'', ''greetings'']" by (rule b(1))
  show "answers (snd (initialize [])) =
     [''Hello! How can I help you today?'', ''Hi there! What can I assist you with?'',
      ''Greetings! How may I be of service?'']" by (rule b(2))
  show "vocabulary (vectorizer (snd (initialize []))) = Some [''greetings'', ''hello'', ''hi'']"
    using b(3) by (simp add: fallback_vocab limit_features_small)
  show "\<exists>X. knowledge_vectors (snd (initialize [])) = Some X \<and> length X = 3"
    using b(6) by simp
qed

lemma greetings_hello:
  "get_response kb' (Some (snd (initialize []))) ''hello'' (3 / 10) =
     (Inr (''Hello! How can I help you today?'', 1, False), Some (snd (initialize [])))"
proof -
  have g: "initialize [] = (Inr (), snd (initialize []))" by (rule greetings_initialize) simp
  have t: "''hello'' \<in> set (analyze new_vectorizer (questions (snd (initialize [])) ! 0))"
    "''hello'' \<in> set (the (vocabulary (vectorizer (snd (initialize [])))))"
    by (simp_all add: greetings_engine analyze_hello)
  have i: "0 < length (questions (snd (initialize [])))" by (simp add: greetings_engine(1))
  show ?thesis
    using self_match_response [OF g i t, of "3 / 10" kb']
    by (simp add: greetings_engine(1,2))
qed

section \<open>The engine over the library's calls: what a build leaves\<close>

lemma initialize_with_exact: "initialize_with exact_sklearn kb = initialize kb"
  by (simp add: initialize_with_def initialize_def load_knowledge_base_with_def
      load_knowledge_base_def exact_sklearn_def Let_def)

lemma cosine_similarity_Inr: "cosine_similarity x Y = Inr row \<Longrightarrow> row \<noteq> []"
  by (auto simp: cosine_similarity_def split: if_splits)

lemma lookup_response_with_exact:
  "lookup_response_with exact_sklearn self q th = lookup_response self q th"
proof (cases "transform (vectorizer self) [q]")
  case (Inl e)
  then show ?thesis
    by (simp add: lookup_response_with_def lookup_response_def exact_sklearn_def)
next
  case (Inr X)
  show ?thesis
  proof (cases "cosine_similarity (hd X) (the (knowledge_vectors self))")
    case (Inl e)
    with Inr show ?thesis
      by (simp add: lookup_response_with_def lookup_response_def exact_sklearn_def)
  next
    case r: (Inr row)
    with Inr cosine_similarity_Inr [OF r] show ?thesis
      by (simp add: lookup_response_with_def lookup_response_def exact_sklearn_def)
  qed
qed

lemma get_response_with_exact:
  "get_response_with exact_sklearn kb self q th = get_response kb self q th"
  by (auto simp: get_response_with_def get_response_def initialize_with_exact
      lookup_response_with_exact split: option.splits prod.splits sum.splits)

lemma initialize_with_Inr:
  assumes "initialize_with lib kb = (Inr (), e)"
  shows "knowledge_vectors e \<noteq> None" and "questions e \<noteq> []"
    and "length (answers e) = length (questions e)"
proof -
  let ?e0 = "\<lparr>vectorizer = new_vectorizer, knowledge_vectors = None, questions = [], answers = []\<rparr>"
  define self1 where "self1 =
    (if filter is_active kb = []
     then ?e0\<lparr>questions := [''hello'', ''hi'', ''greetings''],
               answers := [''Hello! How can I help you today?'',
                           ''Hi there! What can I assist you with?'',
                           ''Greetings! How may I be of service?'']\<rparr>
     else ?e0\<lparr>questions := map question (filter is_active kb),
               answers := map answer (filter is_active kb)\<rparr>)"
  have q: "questions self1 \<noteq> []" "length (answers self1) = length (questions self1)"
    by (simp_all add: self1_def)
  have i: "initialize_with lib kb =
      (case fit_transform_call lib (vectorizer self1) (questions self1) of
         Inl err \<Rightarrow> (Inl err, self1)
       | Inr (v', X) \<Rightarrow> (Inr (), self1\<lparr>vectorizer := v', knowledge_vectors := Some X\<rparr>))"
    using q(1) unfolding initialize_with_def load_knowledge_base_with_def Let_def self1_def
    by simp
  obtain v' X where e: "e = self1\<lparr>vectorizer := v', knowledge_vectors := Some X\<rparr>"
    using assms unfolding i
    by (cases "fit_transform_call lib (vectorizer self1) (questions self1)") auto
  show "knowledge_vectors e \<noteq> None" "questions e \<noteq> []"
    "length (answers e) = length (questions e)"
    using q by (simp_all add: e)
qed

lemma dot_zero_right: "\<forall>b \<in> set y. b = 0 \<Longrightarrow> dot x y = 0"
  by (induction x y rule: list_induct2') auto

lemma similarity_zero_entry:
  assumes "initialize kb = (Inr (), e)" and "j < length (questions e)"
    and "set (analyze new_vectorizer (questions e ! j)) \<inter>
         set (the (vocabulary (vectorizer e))) = {}"
  shows "similarities e q ! j = 0"
proof -
  have z: "\<forall>a \<in> set (tfidf_row (the (vocabulary (vectorizer e))) (idf (vectorizer e))
      (analyze new_vectorizer (questions e ! j))). a = 0"
    using weighted_zero [OF assms(3), of "idf (vectorizer e)"]
    by (simp add: tfidf_row_weighted l2_normalize_def Let_def sq_norm_zero_iff flip: sq_norm_def)
  show ?thesis
    using assms(2) by (simp add: similarities_built(1) [OF assms(1)] dot_zero_right [OF z])
qed

lemma sample_hours_row:
  "similarities (snd (initialize sample_kb)) ''What are your business hours?'' = [1, 0]"
proof -
  let ?s = "similarities (snd (initialize sample_kb)) ''What are your business hours?''"
  have len: "length ?s = 2"
    by (simp add: similarities_built(1) [OF sample_built] sample_engine(1))
  have "?s ! 0 = 1"
    using similarity_self [OF sample_built, of 0 "''business''"]
    by (simp add: sample_engine analyze_hours)
  moreover have "?s ! 1 = 0"
    using similarity_zero_entry [OF sample_built, of 1 "''What are your business hours?''"]
    by (simp add: sample_engine analyze_who)
  ultimately show ?thesis
    using len by (cases ?s; cases "tl ?s") auto
qed

section \<open>Sessions: the claims\<close>

text \<open>
  C9. When no session has the given \<open>session_id\<close> and belongs to the given user,
  \<^verbatim>\<open>send_message\<close> returns \<^verbatim>\<open>None\<close>, which is how the service reports a session
  that was not found, and the state is the one before the call: no user message, no bot
  message, no change to any session, and the engine is not even consulted.
\<close>

theorem send_message_session_not_found:
  assumes "\<forall>s \<in> set (chat_sessions st). \<not> (session_id s = sid \<and> user_id s = uid)"
  shows "send_message st sid uid message now = (Inr None, st)"
proof -
  have "find (\<lambda>s. session_id s = sid \<and> user_id s = uid) (chat_sessions st) = None"
    using assms by (simp add: find_None_iff)
  then show ?thesis by (simp add: send_message_def)
qed

text \<open>The session of user 42 addressed by user 7.\<close>

theorem send_message_session_not_found_witness:
  "send_message demo_state ''tok-1'' 7 ''hello'' 9 = (Inr None, demo_state)"
  by (rule send_message_session_not_found) (simp add: demo_state_def demo_session_def)

text \<open>
  C3. Take any state and any sequence of \<^verbatim>\<open>send_message\<close> and \<^verbatim>\<open>close_session\<close>
  calls, cut anywhere into an earlier and a later part. A session (row \<open>i\<close> of the
  table; the calls neither add, drop nor reorder rows, and its primary key stays the
  same) that is escalated or closed after the earlier part is not active after the later
  part, whatever the calls, their targets and the engine's answers are.
\<close>

theorem status_never_back_to_active:
  assumes "i < length (chat_sessions st)"
    and "status (chat_sessions (run st earlier) ! i) = ESCALATED \<or>
         status (chat_sessions (run st earlier) ! i) = CLOSED"
  shows "status (chat_sessions (run st (earlier @ later)) ! i) \<noteq> ACTIVE \<and>
         pk (chat_sessions (run st (earlier @ later)) ! i) = pk (chat_sessions st ! i)"
proof -
  have "status (chat_sessions (run st earlier) ! i) \<noteq> ACTIVE" using assms(2) by auto
  then have "status (chat_sessions (run (run st earlier) later) ! i) \<noteq> ACTIVE"
    using assms(1) run_not_active [of i "run st earlier" later] by simp
  then show ?thesis using assms(1) by (simp add: run_append run_pk)
qed

text \<open>The sample session is closed, then written to and closed again.\<close>

theorem status_never_back_to_active_witness:
  "status (chat_sessions (run demo_state [Close_session 1 5]) ! 0) = CLOSED \<and>
   status (chat_sessions (run demo_state
       ([Close_session 1 5] @ [Send_message ''tok-1'' 42 ''hello'' 6, Close_session 1 7])) ! 0) \<noteq> ACTIVE"
proof -
  have l: "0 < length (chat_sessions demo_state)" by (simp add: demo_state_def)
  have c: "status (chat_sessions (run demo_state [Close_session 1 5]) ! 0) = CLOSED"
    by (simp add: close_session_def demo_state_def demo_session_def)
  show ?thesis
    using status_never_back_to_active [OF l disjI2, OF c,
        of "[Send_message ''tok-1'' 42 ''hello'' 6, Close_session 1 7]"] c
    by blast
qed

text \<open>
  C10. A call of \<^verbatim>\<open>send_message\<close>, successful or not and whichever session it
  addresses, leaves the status and \<open>escalated_at\<close> of every session that is not active
  as they were. So does every sequence of \<^verbatim>\<open>send_message\<close> calls: once the
  escalation has set \<open>escalated_at\<close>, the status is no longer \<open>ACTIVE\<close> and no later
  \<^verbatim>\<open>send_message\<close> writes the field again.
\<close>

theorem send_message_keeps_non_active:
  assumes "i < length (chat_sessions st)" and "status (chat_sessions st ! i) \<noteq> ACTIVE"
  shows "status (chat_sessions (snd (send_message st sid uid message now)) ! i) =
           status (chat_sessions st ! i) \<and>
         escalated_at (chat_sessions (snd (send_message st sid uid message now)) ! i) =
           escalated_at (chat_sessions st ! i) \<and>
         (list_all is_send calls \<longrightarrow>
            status (chat_sessions (run st calls) ! i) = status (chat_sessions st ! i) \<and>
            escalated_at (chat_sessions (run st calls) ! i) = escalated_at (chat_sessions st ! i))"
  using send_message_row [OF assms(1), of sid uid message now] assms(2)
    run_sends_row [OF assms, of calls]
  by auto

text \<open>
  The session escalated at time 3 receives a message the engine cannot match (the reply
  asks for escalation again) and then another one.
\<close>

theorem send_message_keeps_non_active_witness:
  "status (chat_sessions (snd (send_message escalated_state ''tok-1'' 42 ''asdkjf qpwoei'' 9)) ! 0) = ESCALATED \<and>
   escalated_at (chat_sessions (snd (send_message escalated_state ''tok-1'' 42 ''asdkjf qpwoei'' 9)) ! 0) = Some 3 \<and>
   escalated_at (chat_sessions (run escalated_state
       [Send_message ''tok-1'' 42 ''asdkjf qpwoei'' 9, Send_message ''tok-1'' 42 ''hello'' 10]) ! 0) = Some 3"
proof -
  have l: "0 < length (chat_sessions escalated_state)"
    by (simp add: escalated_state_def demo_state_def)
  have s: "status (chat_sessions escalated_state ! 0) \<noteq> ACTIVE"
    by (simp add: escalated_state_def demo_state_def)
  have r: "status (chat_sessions escalated_state ! 0) = ESCALATED"
    "escalated_at (chat_sessions escalated_state ! 0) = Some 3"
    by (simp_all add: escalated_state_def demo_state_def demo_session_def)
  have a: "list_all is_send [Send_message ''tok-1'' 42 ''asdkjf qpwoei'' 9, Send_message ''tok-1'' 42 ''hello'' 10]"
    by simp
  show ?thesis
    using send_message_keeps_non_active [OF l s, of "''tok-1''" 42 "''asdkjf qpwoei''" 9
        "[Send_message ''tok-1'' 42 ''asdkjf qpwoei'' 9, Send_message ''tok-1'' 42 ''hello'' 10]"] a
    unfolding r by blast
qed

text \<open>
  C4, as the code has it. \<^verbatim>\<open>close_session\<close> looks at no status: on a session that
  is already closed it succeeds again (it returns \<^verbatim>\<open>True\<close>) and sets \<open>closed_at\<close>
  to the time of this call. The status stays \<open>CLOSED\<close>, and every other field of the
  session, every other session, the messages and the engine are as before.
\<close>

theorem close_session_closed_overwrites:
  assumes "find (\<lambda>r. pk r = key) (chat_sessions st) = Some s" and "status s = CLOSED"
  shows "close_session st key now =
           (True, st\<lparr>chat_sessions :=
                       update_first (\<lambda>r. pk r = key) (\<lambda>r. r\<lparr>closed_at := Some now\<rparr>)
                         (chat_sessions st)\<rparr>)"
proof -
  have "s\<lparr>status := CLOSED, closed_at := Some now\<rparr> = s\<lparr>closed_at := Some now\<rparr>"
    using assms(2) by simp
  then show ?thesis
    using assms(1) update_first_by_row [OF assms(1), of "\<lambda>r. r\<lparr>closed_at := Some now\<rparr>"]
    by (simp add: close_session_def)
qed

text \<open>The session closed at time 5 is closed at time 9.\<close>

theorem close_session_closed_overwrites_witness:
  "close_session closed_state 1 9 =
     (True, closed_state\<lparr>chat_sessions :=
        [demo_session\<lparr>status := CLOSED, escalated_at := Some 3, closed_at := Some 9\<rparr>]\<rparr>)"
proof -
  have f: "find (\<lambda>r. pk r = 1) (chat_sessions closed_state) =
      Some (demo_session\<lparr>status := CLOSED, escalated_at := Some 3, closed_at := Some 5\<rparr>)"
    by (simp add: closed_state_def demo_state_def demo_session_def)
  show ?thesis
    using close_session_closed_overwrites [OF f, of 9]
    by (simp add: closed_state_def demo_state_def demo_session_def)
qed

text \<open>
  C4 as stated fails there: the call does not fail, and \<open>closed_at\<close> goes from 5 to 9.
\<close>

theorem close_session_closed_counterexample:
  "status (hd (chat_sessions closed_state)) = CLOSED \<and>
   closed_at (hd (chat_sessions closed_state)) = Some 5 \<and>
   fst (close_session closed_state 1 9) = True \<and>
   closed_at (hd (chat_sessions (snd (close_session closed_state 1 9)))) = Some 9"
  by (simp add: close_session_def closed_state_def demo_state_def demo_session_def)


section \<open>The engine: the claims\<close>

text \<open>
  C1, as the code has it. Take any engine that \<^verbatim>\<open>_initialize\<close> has installed,
  whatever the library computes, any query and any threshold (0.3 when the caller gives
  none), and let \<open>sims\<close> be the row of cosine similarities, one for each corpus entry,
  that the library returns at line 63. Then \<^verbatim>\<open>get_response\<close> raises nothing and
  leaves the engine as it is. It returns the answer of an entry whose similarity is the
  maximum of the row with \<open>escalate = False\<close> when that maximum is at least the
  threshold, and otherwise its own fixed hand-off message (the call has no argument for
  one) with \<open>escalate = True\<close>; in both cases it returns that maximum.
\<close>

theorem get_response_threshold:
  assumes "initialize_with lib kb0 = (Inr (), e)"
    and "transform_call lib (vectorizer e) [q] = Inr input_vector"
    and "cosine_similarity_call lib input_vector (the (knowledge_vectors e)) = Inr [sims]"
    and "length sims = length (questions e)"
  shows "\<exists>i < length (questions e).
           (\<forall>j < length (questions e). sims ! j \<le> sims ! i) \<and>
           get_response_with lib kb (Some e) q th =
             (Inr (if th \<le> sims ! i
                   then (answers e ! i, sims ! i, False)
                   else (''I'm not sure I understand. Let me connect you with a human agent who can help.'',
                         sims ! i, True)),
              Some e)"
proof -
  note b = initialize_with_Inr [OF assms(1)]
  have ne: "sims \<noteq> []" using b(2) assms(4) by auto
  have m: "sims ! np_argmax sims = np_max sims" by (rule np_argmax_max [OF ne])
  have l: "np_argmax sims < length (questions e)"
    using np_argmax_less [OF ne] assms(4) by simp
  have "\<forall>j < length (questions e). sims ! j \<le> sims ! np_argmax sims"
    using np_max_ge [of _ sims] assms(4) m by simp
  moreover have "get_response_with lib kb (Some e) q th =
      (Inr (if th \<le> sims ! np_argmax sims
            then (answers e ! np_argmax sims, sims ! np_argmax sims, False)
            else (''I'm not sure I understand. Let me connect you with a human agent who can help.'',
                  sims ! np_argmax sims, True)),
       Some e)"
    using b l ne assms(2,3)
    by (auto simp: get_response_with_def lookup_response_with_def Let_def m)
  ultimately show ?thesis using l by blast
qed

text \<open>
  The engine built from the sample knowledge base is asked for the business hours, with
  the library in exact arithmetic: the row is 1 and 0, in floating point as well.
\<close>

theorem get_response_threshold_witness:
  "get_response_with exact_sklearn sample_kb (Some (snd (initialize sample_kb)))
     ''What are your business hours?'' (3 / 10) =
   (Inr (''Our business hours are Monday to Friday, 9 AM to 6 PM EST.'', 1, False),
    Some (snd (initialize sample_kb)))"
proof -
  let ?e = "snd (initialize sample_kb)"
  let ?q = "''What are your business hours?''"
  let ?x = "tfidf_row (the (vocabulary (vectorizer ?e))) (idf (vectorizer ?e)) (analyze new_vectorizer ?q)"
  have i: "initialize_with exact_sklearn sample_kb = (Inr (), ?e)"
    using sample_built by (simp add: initialize_with_exact)
  note f = built_from_Inr [OF initialize_built_from(1) [OF sample_built]]
  have t: "transform_call exact_sklearn (vectorizer ?e) [?q] = Inr [?x]"
    using f(3,5) by (simp add: exact_sklearn_def transform_def)
  have c: "cosine_similarity_call exact_sklearn [?x] (the (knowledge_vectors ?e)) = Inr [[1, 0]]"
    using similarities_built(2) [OF sample_built, of ?q]
    by (simp add: exact_sklearn_def sample_hours_row)
  have l: "length [1, 0 :: real] = length (questions ?e)" by (simp add: sample_engine(1))
  from get_response_threshold [OF i t c l, of sample_kb "3 / 10"]
  obtain i where i: "i < length (questions ?e)"
    and mx: "\<forall>j < length (questions ?e). [1, 0 :: real] ! j \<le> [1, 0] ! i"
    and r: "get_response_with exact_sklearn sample_kb (Some ?e) ?q (3 / 10) =
       (Inr (if 3 / 10 \<le> [1, 0 :: real] ! i
             then (answers ?e ! i, [1, 0] ! i, False)
             else (''I'm not sure I understand. Let me connect you with a human agent who can help.'',
                   [1, 0] ! i, True)),
        Some ?e)"
    by blast
  have "i = 0"
  proof (rule ccontr)
    assume "i \<noteq> 0"
    with i have "i = 1" by (simp add: sample_engine(1))
    with mx show False by (auto simp: sample_engine(1) dest: spec [of _ 0])
  qed
  with r show ?thesis by (simp add: sample_engine(2))
qed

text \<open>
  C1 as stated fails on a miss: a caller who wants \<open>Please hold for an agent.\<close> as the
  fallback, which Query of the specification would return, gets the engine's own text.
\<close>

theorem get_response_fallback_counterexample:
  "get_response sample_kb (Some (snd (initialize sample_kb))) ''asdkjf qpwoei'' (3 / 10) =
     (Inr (''I'm not sure I understand. Let me connect you with a human agent who can help.'', 0, True),
      Some (snd (initialize sample_kb))) \<and>
   spec_Query (snd (initialize sample_kb)) ''asdkjf qpwoei'' (3 / 10) ''Please hold for an agent.'' =
     (''Please hold for an agent.'', 0, True)"
proof -
  have "set (analyze new_vectorizer ''asdkjf qpwoei'') \<inter>
      set (the (vocabulary (vectorizer (snd (initialize sample_kb))))) = {}"
    by (simp add: sample_engine(3) analyze_noise)
  then have "similarities (snd (initialize sample_kb)) ''asdkjf qpwoei'' = [0, 0]"
    using similarities_no_overlap [OF sample_built] by (simp add: sample_engine(1))
  then have "spec_Query (snd (initialize sample_kb)) ''asdkjf qpwoei'' (3 / 10) ''Please hold for an agent.'' =
     (''Please hold for an agent.'', 0, True)"
    by (simp add: spec_Query_def)
  then show ?thesis using sample_noise [of sample_kb] by (simp add: handoff_def)
qed

text \<open>
  C6. When the knowledge base has no active row at the time the index is built, by
  \<^verbatim>\<open>retrain_model\<close> or by the first query of an engine whose vectors are unset,
  the build succeeds and installs the three greetings with their answers and three
  vectors. The query \<open>hello\<close> then returns the first greeting's answer with
  \<open>escalate = False\<close>, whatever the knowledge base holds by then.
\<close>

theorem empty_corpus_installs_greetings:
  assumes "filter is_active kb = []"
  shows "\<exists>e. retrain_model kb self = (Inr (), Some e) \<and>
           questions e = [''hello'', ''hi'', ''greetings''] \<and>
           answers e = [''Hello! How can I help you today?'',
                        ''Hi there! What can I assist you with?'',
                        ''Greetings! How may I be of service?''] \<and>
           (\<exists>X. knowledge_vectors e = Some X \<and> length X = 3) \<and>
           get_response kb' (Some e) ''hello'' (3 / 10) =
             (Inr (''Hello! How can I help you today?'', 1, False), Some e) \<and>
           (\<forall>e0. knowledge_vectors e0 = None \<longrightarrow>
              get_response kb (Some e0) ''hello'' (3 / 10) =
                (Inr (''Hello! How can I help you today?'', 1, False), Some e))"
proof -
  let ?e = "snd (initialize [])"
  note i = greetings_initialize [OF assms]
  have "retrain_model kb self = (Inr (), Some ?e)" by (simp add: retrain_model_def i)
  moreover have "get_response kb (Some e0) ''hello'' (3 / 10) =
      (Inr (''Hello! How can I help you today?'', 1, False), Some ?e)"
    if "knowledge_vectors e0 = None" for e0
    using that greetings_hello [of kb] get_response_built [OF i, of kb "''hello''" "3 / 10"]
    by (simp add: get_response_def i)
  ultimately show ?thesis
    using greetings_engine(1,2,4) greetings_hello [of kb'] by blast
qed

text \<open>A knowledge base whose only row is inactive, and an engine never initialised.\<close>

theorem empty_corpus_installs_greetings_witness:
  "\<exists>e. retrain_model [hours_entry\<lparr>is_active := False\<rparr>] None = (Inr (), Some e) \<and>
        questions e = [''hello'', ''hi'', ''greetings''] \<and>
        get_response [hours_entry\<lparr>is_active := False\<rparr>] (Some e) ''hello'' (3 / 10) =
          (Inr (''Hello! How can I help you today?'', 1, False), Some e)"
proof -
  have "filter is_active [hours_entry\<lparr>is_active := False\<rparr>] = []" by simp
  from empty_corpus_installs_greetings [OF this, of None "[hours_entry\<lparr>is_active := False\<rparr>]"]
  show ?thesis by blast
qed

text \<open>
  C2, as the code has it. \<^verbatim>\<open>send_message\<close> looks at the status only to decide on
  escalation, so a closed session is served like any other: unless the engine raises
  (then nothing is stored), the user message and the bot reply are appended and the
  result is returned with status \<open>CLOSED\<close>. No field of any session changes.
  \<^verbatim>\<open>send_agent_message\<close> is the operation that is refused on a closed session: it
  returns \<^verbatim>\<open>False\<close> and changes nothing.
\<close>

theorem closed_session_still_served:
  assumes "find (\<lambda>r. session_id r = sid \<and> user_id r = uid) (chat_sessions st) = Some s"
    and "find (\<lambda>r. pk r = key) (chat_sessions st) = Some s"
    and "status s = CLOSED"
  shows "send_message st sid uid message now =
           (case get_response (knowledge_base st) (chatbot st) message (3 / 10) of
              (Inl e, eng) \<Rightarrow> (Inl e, st\<lparr>chatbot := eng\<rparr>)
            | (Inr (reply, sim, escalate), eng) \<Rightarrow>
                (Inr (Some \<lparr>user_message = message, bot_response = reply, similarity = sim,
                             needs_escalation = escalate, session_status = CLOSED\<rparr>),
                 st\<lparr>chat_messages := chat_messages st @
                       [\<lparr>msg_session = pk s, message_type = USER, content = message,
                         is_escalation_trigger = False, timestamp = now\<rparr>,
                        \<lparr>msg_session = pk s, message_type = BOT, content = reply,
                         is_escalation_trigger = escalate, timestamp = now\<rparr>],
                     chatbot := eng\<rparr>)) \<and>
         send_agent_message st key agent_message agent_id now = (False, st)"
proof -
  have "update_first (\<lambda>r. session_id r = sid \<and> user_id r = uid) (\<lambda>r. s) (chat_sessions st) =
      chat_sessions st"
    by (rule update_first_same [OF assms(1)])
  then show ?thesis
    using assms
    by (auto simp: send_message_def send_agent_message_def Let_def split: prod.splits sum.splits)
qed

text \<open>The closed sample session asked for the business hours, then written to by an agent.\<close>

theorem closed_session_still_served_witness:
  "send_message closed_state ''tok-1'' 42 ''What are your business hours?'' 9 =
     (Inr (Some \<lparr>user_message = ''What are your business hours?'',
                  bot_response = ''Our business hours are Monday to Friday, 9 AM to 6 PM EST.'',
                  similarity = 1, needs_escalation = False, session_status = CLOSED\<rparr>),
      closed_state\<lparr>chat_messages := chat_messages closed_state @
        [\<lparr>msg_session = 1, message_type = USER, content = ''What are your business hours?'',
          is_escalation_trigger = False, timestamp = 9\<rparr>,
         \<lparr>msg_session = 1, message_type = BOT,
          content = ''Our business hours are Monday to Friday, 9 AM to 6 PM EST.'',
          is_escalation_trigger = False, timestamp = 9\<rparr>]\<rparr>) \<and>
   send_agent_message closed_state 1 ''Can I help?'' 2 9 = (False, closed_state)"
proof -
  let ?s = "demo_session\<lparr>status := CLOSED, escalated_at := Some 3, closed_at := Some 5\<rparr>"
  have f: "find (\<lambda>r. session_id r = ''tok-1'' \<and> user_id r = 42) (chat_sessions closed_state) = Some ?s"
    "find (\<lambda>r. pk r = 1) (chat_sessions closed_state) = Some ?s"
    "status ?s = CLOSED"
    by (simp_all add: closed_state_def demo_state_def demo_session_def)
  have g: "get_response (knowledge_base closed_state) (chatbot closed_state)
        ''What are your business hours?'' (3 / 10) =
      (Inr (''Our business hours are Monday to Friday, 9 AM to 6 PM EST.'', 1, False),
       chatbot closed_state)"
    using sample_hours [of sample_kb] by (simp add: closed_state_def demo_state_def)
  have p: "pk ?s = 1" by (simp add: demo_session_def)
  show ?thesis
    using closed_session_still_served [OF f, where message = "''What are your business hours?''"
        and now = 9 and agent_message = "''Can I help?''" and agent_id = 2]
    unfolding g p by simp
qed

text \<open>
  C2 as stated fails: a message to the closed sample session is answered and recorded.
\<close>

theorem closed_session_counterexample:
  "status (hd (chat_sessions closed_state)) = CLOSED \<and>
   fst (send_message closed_state ''tok-1'' 42 ''asdkjf qpwoei'' 9) =
     Inr (Some \<lparr>user_message = ''asdkjf qpwoei'',
                 bot_response = ''I'm not sure I understand. Let me connect you with a human agent who can help.'',
                 similarity = 0, needs_escalation = True, session_status = CLOSED\<rparr>) \<and>
   chat_messages (snd (send_message closed_state ''tok-1'' 42 ''asdkjf qpwoei'' 9)) =
     chat_messages closed_state @
       [\<lparr>msg_session = 1, message_type = USER, content = ''asdkjf qpwoei'',
         is_escalation_trigger = False, timestamp = 9\<rparr>,
        \<lparr>msg_session = 1, message_type = BOT,
         content = ''I'm not sure I understand. Let me connect you with a human agent who can help.'',
         is_escalation_trigger = True, timestamp = 9\<rparr>]"
proof -
  have g: "get_response (knowledge_base closed_state) (chatbot closed_state) ''asdkjf qpwoei'' (3 / 10) =
      (Inr (handoff, 0, True), chatbot closed_state)"
    using sample_noise [of sample_kb] by (simp add: closed_state_def demo_state_def)
  have f: "find (\<lambda>r. session_id r = ''tok-1'' \<and> user_id r = 42) (chat_sessions closed_state) =
      Some (demo_session\<lparr>status := CLOSED, escalated_at := Some 3, closed_at := Some 5\<rparr>)"
    by (simp add: closed_state_def demo_state_def demo_session_def)
  have h: "status (hd (chat_sessions closed_state)) = CLOSED"
    by (simp add: closed_state_def demo_state_def)
  show ?thesis
    unfolding send_message_def Let_def f g
    by (simp add: h handoff_def demo_session_def)
qed

end
